theory Spec2Isabelle
  imports Main "HOL-Library.Sublist"
begin

section \<open>The build utilities of the desktop scripts (\<^verbatim>\<open>desktop/scripts/build-utils.ts\<close>)\<close>

text \<open>
  The module orchestrates a build: it prepares the default plugins, generates the entry
  points that load them, compiles three bundles with Metro and moves the source maps.
  Every function of the module is a sequence of calls to the file system (\<^verbatim>\<open>fs-extra\<close>),
  to Metro and to sibling packages. The embedding keeps that shape: a function of the
  module is a program that runs on a world \<open>'w\<close>, returns an outcome, the new world, and
  the list of calls it made, in order. What the called packages do to the world is a
  parameter (\<open>sys\<close>), so a theorem about a function holds whatever they do, failures
  included. A concrete file system, used where a claim is about files, follows later.
\<close>

subsection \<open>Values\<close>

text \<open>A thrown JavaScript \<^verbatim>\<open>Error\<close>, with its message.\<close>

datatype error = Error string

text \<open>
  Modelled from the spec: the plugin descriptors, declared in \<^verbatim>\<open>flipper-common\<close> and not
  in this module. The spec gives an installed descriptor at least \<^verbatim>\<open>id\<close>, \<^verbatim>\<open>name\<close>, \<^verbatim>\<open>dir\<close>,
  \<^verbatim>\<open>version\<close> and \<^verbatim>\<open>flipperSDKVersion\<close>. The code reads \<^verbatim>\<open>id\<close>, \<^verbatim>\<open>name\<close>,
  \<^verbatim>\<open>dir\<close>, \<^verbatim>\<open>version\<close> and \<^verbatim>\<open>flipperSDKVersion\<close> and writes \<^verbatim>\<open>isBundled\<close>, \<^verbatim>\<open>version\<close>,
  \<^verbatim>\<open>flipperSDKVersion\<close>, \<^verbatim>\<open>dir\<close> and \<^verbatim>\<open>entry\<close>; every other property is carried along
  by the object spread and kept in \<open>others\<close>. The type of the source location is the
  parameter: a \<^verbatim>\<open>string\<close> in \<^verbatim>\<open>InstalledPluginDetails\<close>, possibly \<^verbatim>\<open>undefined\<close>
  (\<open>None\<close>) in the object cast to \<^verbatim>\<open>BundledPluginDetails\<close>. \<^verbatim>\<open>flipperSDKVersion\<close> may
  be absent; \<^verbatim>\<open>===\<close> against a string is then false. The field \<^verbatim>\<open>id\<close> is named \<open>id'\<close>.
\<close>

record 'loc PluginDetails =
  id' :: string
  name :: string
  version :: string
  flipperSDKVersion :: "string option"
  isBundled :: bool
  dir :: 'loc
  entry :: 'loc
  others :: "(string \<times> string) list"

type_synonym InstalledPluginDetails = "string PluginDetails"
type_synonym BundledPluginDetails = "string option PluginDetails"

text \<open>
  \<^verbatim>\<open>process.env\<close>: the variables the module reads. A variable is absent (\<open>None\<close>) or a
  string; a condition on it follows JavaScript's truthiness, under which the empty
  string counts as absent.
\<close>

record env =
  NODE_ENV :: "string option"
  FLIPPER_DEFAULT_PLUGINS_DIR :: "string option"
  FLIPPER_NO_DEFAULT_PLUGINS :: "string option"
  FLIPPER_NO_BUNDLED_PLUGINS :: "string option"
  FLIPPER_NO_REBUILD_PLUGINS :: "string option"

definition truthy :: "string option \<Rightarrow> bool" where
  "truthy v = (case v of None \<Rightarrow> False | Some s \<Rightarrow> s \<noteq> [])"

text \<open>\<^verbatim>\<open>const dev = process.env.NODE_ENV !== 'production'\<close>\<close>

definition dev :: "env \<Rightarrow> bool" where
  "dev E = (NODE_ENV E \<noteq> Some ''production'')"

text \<open>
  The constants the module imports: the directories of \<^verbatim>\<open>./paths\<close>, the \<^verbatim>\<open>version\<close> of
  \<^verbatim>\<open>../package.json\<close> (\<open>version_pkg\<close>) and the resolved path of the minifier. None of
  them is defined in this module, so they are parameters.
\<close>

record globals =
  appDir :: string
  staticDir :: string
  defaultPluginsDir :: string
  babelTransformationsDir :: string
  serverDir :: string
  rootDir :: string
  browserUiDir :: string
  version_pkg :: string
  minifierPath :: string

text \<open>
  \<^verbatim>\<open>path.join\<close>: the non-empty segments joined with \<^verbatim>\<open>/\<close>, \<^verbatim>\<open>.\<close> when nothing is left.
  Node then normalises the result (\<^verbatim>\<open>.\<close>, \<^verbatim>\<open>..\<close> and repeated separators); the
  directories are taken in normal form and the other segments are the literal names of
  the module, so the joined string is normal already and that step is left out.
\<close>

fun join :: "string \<Rightarrow> string list \<Rightarrow> string" where
  "join sep [] = []"
| "join sep [x] = x"
| "join sep (x # y # ys) = x @ sep @ join sep (y # ys)"

definition path_join :: "string list \<Rightarrow> string" where
  "path_join segs =
     (let joined = join ''/'' (filter (\<lambda>s. s \<noteq> []) segs)
      in if joined = [] then ''.'' else joined)"

text \<open>Template literals print a number in decimal and a boolean as a word.\<close>

fun show_nat :: "nat \<Rightarrow> string" where
  "show_nat n =
     (if n < 10 then [char_of (48 + n)]
      else show_nat (n div 10) @ [char_of (48 + n mod 10)])"

declare show_nat.simps [simp del]

definition show_bool :: "bool \<Rightarrow> string" where
  "show_bool b = (if b then ''true'' else ''false'')"

subsection \<open>Metro's configuration and options\<close>

text \<open>
  The two objects handed to \<^verbatim>\<open>Metro.runBuild\<close>. An absent property is \<open>None\<close>. The
  reporter is always the silent one and is left out; \<open>loaded\<close> is the result of
  \<^verbatim>\<open>Metro.loadConfig()\<close> under the properties that \<^verbatim>\<open>Object.assign\<close> overrides.
\<close>

record minifier_config =
  keep_fnames :: bool
  module :: bool
  warnings :: bool
  mangle :: bool
  compress :: bool

record transformer =
  babelTransformerPath :: string
  minifierPath_t :: string
  minifierConfig_t :: minifier_config

record resolver =
  resolverMainFields :: "string list"
  blacklistRE :: "string option"
  sourceExts :: "string list"

record metro_config =
  loaded :: "(string \<times> string) list option"
  projectRoot :: string
  watchFolders :: "string list option"
  serializer :: bool
  transformer_c :: transformer
  resolver_c :: resolver

record metro_options =
  platform :: "string option"
  entry_o :: string
  out :: string
  dev_o :: bool
  minify :: bool
  resetCache :: bool
  sourceMap :: bool
  sourceMapUrl :: "string option"
  inlineSourceMap :: bool

subsection \<open>Calls and programs\<close>

text \<open>
  One constructor for each call the module makes outside itself, with the arguments it
  passes. The fixed option objects are not arguments: \<^verbatim>\<open>fs.copy\<close> is always called with
  \<^verbatim>\<open>{recursive: true, overwrite: true, dereference: true}\<close>, \<^verbatim>\<open>fs.move\<close> with
  \<^verbatim>\<open>{overwrite: true}\<close>, \<^verbatim>\<open>fs.promises.mkdir\<close> with \<^verbatim>\<open>{recursive: true}\<close> and
  \<^verbatim>\<open>fs.ensureSymlink\<close> with the type \<^verbatim>\<open>'junction'\<close>.
\<close>

datatype event =
    ConsoleLog string
  | ConsoleError string error
  | ProcessExit int
  | SetEnv string string
  | EmptyDir string
  | Copy string string
  | WriteJSON string "BundledPluginDetails list"
  | WriteFile string string
  | EnsureDir string
  | EnsureSymlink string string
  | Move string string
  | Remove string
  | Mkdir string
  | GetSourcePlugins
  | GetPluginSourceFolders
  | GetAppWatchFolders
  | GetWatchFolders string
  | RunBuild string bool
  | RequireElectronVersion
  | MetroLoadConfig
  | MetroRunBuild metro_config metro_options
  | StripSourceMapComment string

text \<open>
  A call either returns or throws, and changes the world. \<^verbatim>\<open>process.exit\<close> ends the
  process: nothing runs after it, no \<^verbatim>\<open>catch\<close> sees it.
\<close>

datatype 'a outcome = Returned 'a | Threw error | Exited int

type_synonym ('w, 'a) ext = "'w \<Rightarrow> (error + 'a) \<times> 'w"
type_synonym ('w, 'a) prog = "'w \<Rightarrow> 'a outcome \<times> 'w \<times> event list"

definition return :: "'a \<Rightarrow> ('w, 'a) prog" where
  "return x = (\<lambda>w. (Returned x, w, []))"

text \<open>\<^verbatim>\<open>const x = await m; k(x)\<close>: \<open>k\<close> runs only when \<open>m\<close> returned.\<close>

definition await :: "('w, 'a) prog \<Rightarrow> ('a \<Rightarrow> ('w, 'b) prog) \<Rightarrow> ('w, 'b) prog" where
  "await m k = (\<lambda>w.
     case m w of
       (Returned x, w', es) \<Rightarrow> (case k x w' of (r, w'', es') \<Rightarrow> (r, w'', es @ es'))
     | (Threw e, w', es) \<Rightarrow> (Threw e, w', es)
     | (Exited n, w', es) \<Rightarrow> (Exited n, w', es))"

text \<open>\<^verbatim>\<open>m; k\<close>\<close>

definition seq :: "('w, 'a) prog \<Rightarrow> ('w, 'b) prog \<Rightarrow> ('w, 'b) prog" where
  "seq m k = await m (\<lambda>_. k)"

text \<open>\<^verbatim>\<open>try { m } catch (err) { h(err) }\<close>\<close>

definition tryCatch :: "('w, 'a) prog \<Rightarrow> (error \<Rightarrow> ('w, 'a) prog) \<Rightarrow> ('w, 'a) prog" where
  "tryCatch m h = (\<lambda>w.
     case m w of
       (Threw e, w', es) \<Rightarrow> (case h e w' of (r, w'', es') \<Rightarrow> (r, w'', es @ es'))
     | (Returned x, w', es) \<Rightarrow> (Returned x, w', es)
     | (Exited n, w', es) \<Rightarrow> (Exited n, w', es))"

text \<open>\<^verbatim>\<open>for (const x of xs) { body(x) }\<close>\<close>

fun forOf :: "'a list \<Rightarrow> ('a \<Rightarrow> ('w, unit) prog) \<Rightarrow> ('w, unit) prog" where
  "forOf [] body = return ()"
| "forOf (x # xs) body = seq (body x) (forOf xs body)"

text \<open>A call outside the module: it is recorded, then it returns or throws.\<close>

definition call :: "event \<Rightarrow> ('w, 'a) ext \<Rightarrow> ('w, 'a) prog" where
  "call ev f = (\<lambda>w.
     case f w of
       (Inr x, w') \<Rightarrow> (Returned x, w', [ev])
     | (Inl e, w') \<Rightarrow> (Threw e, w', [ev]))"

text \<open>
  A call to an asynchronous function whose promise is not awaited: the call is recorded
  and the caller goes on at once. A rejection of the promise never reaches the caller,
  so the outcome is a return whatever the call does. What the call does to the world is
  taken where it is started; nothing in the caller waits for it.
\<close>

definition start :: "event \<Rightarrow> ('w, 'a) ext \<Rightarrow> ('w, unit) prog" where
  "start ev f = (\<lambda>w. (Returned (), snd (f w), [ev]))"

definition console_log :: "string \<Rightarrow> ('w, unit) prog" where
  "console_log msg = (\<lambda>w. (Returned (), w, [ConsoleLog msg]))"

definition console_error :: "string \<Rightarrow> error \<Rightarrow> ('w, unit) prog" where
  "console_error msg err = (\<lambda>w. (Returned (), w, [ConsoleError msg err]))"

definition process_exit :: "int \<Rightarrow> ('w, 'a) prog" where
  "process_exit n = (\<lambda>w. (Exited n, w, [ProcessExit n]))"

text \<open>\<^verbatim>\<open>process.env[n] = v\<close>\<close>

definition set_env :: "string \<Rightarrow> string \<Rightarrow> ('w, unit) prog" where
  "set_env n v = (\<lambda>w. (Returned (), w, [SetEnv n v]))"

text \<open>What a run gives: its outcome, the world it leaves, the calls it made.\<close>

definition outcome_of :: "'a outcome \<times> 'w \<times> event list \<Rightarrow> 'a outcome" where
  "outcome_of r = fst r"

definition world_of :: "'a outcome \<times> 'w \<times> event list \<Rightarrow> 'w" where
  "world_of r = fst (snd r)"

definition events_of :: "'a outcome \<times> 'w \<times> event list \<Rightarrow> event list" where
  "events_of r = snd (snd r)"

subsection \<open>The packages the module calls\<close>

text \<open>
  What each imported function does to the world. The first group is \<^verbatim>\<open>fs-extra\<close>, the
  second the sibling packages (\<^verbatim>\<open>flipper-plugin-lib\<close>, \<^verbatim>\<open>flipper-pkg-lib\<close>,
  \<^verbatim>\<open>./get-app-watch-folders\<close>), \<^verbatim>\<open>require('electron/package.json').version\<close> and Metro.
\<close>

record 'w sys =
  sys_emptyDir :: "string \<Rightarrow> ('w, unit) ext"
  sys_copy :: "string \<Rightarrow> string \<Rightarrow> ('w, unit) ext"
  sys_writeJSON :: "string \<Rightarrow> BundledPluginDetails list \<Rightarrow> ('w, unit) ext"
  sys_writeFile :: "string \<Rightarrow> string \<Rightarrow> ('w, unit) ext"
  sys_ensureDir :: "string \<Rightarrow> ('w, unit) ext"
  sys_ensureSymlink :: "string \<Rightarrow> string \<Rightarrow> ('w, unit) ext"
  sys_move :: "string \<Rightarrow> string \<Rightarrow> ('w, unit) ext"
  sys_remove :: "string \<Rightarrow> ('w, unit) ext"
  sys_mkdir :: "string \<Rightarrow> ('w, unit) ext"
  sys_getSourcePlugins :: "('w, InstalledPluginDetails list) ext"
  sys_getPluginSourceFolders :: "('w, string list) ext"
  sys_getAppWatchFolders :: "('w, string list) ext"
  sys_getWatchFolders :: "string \<Rightarrow> ('w, string list) ext"
  sys_runBuild :: "string \<Rightarrow> bool \<Rightarrow> ('w, unit) ext"
  sys_electronVersion :: "('w, string) ext"
  sys_MetroLoadConfig :: "('w, (string \<times> string) list) ext"
  sys_MetroRunBuild :: "metro_config \<Rightarrow> metro_options \<Rightarrow> ('w, unit) ext"
  sys_stripSourceMapComment :: "string \<Rightarrow> ('w, unit) ext"

definition fs_emptyDir :: "'w sys \<Rightarrow> string \<Rightarrow> ('w, unit) prog" where
  "fs_emptyDir sys d = call (EmptyDir d) (sys_emptyDir sys d)"

definition fs_copy :: "'w sys \<Rightarrow> string \<Rightarrow> string \<Rightarrow> ('w, unit) prog" where
  "fs_copy sys src dst = call (Copy src dst) (sys_copy sys src dst)"

definition fs_writeJSON :: "'w sys \<Rightarrow> string \<Rightarrow> BundledPluginDetails list \<Rightarrow> ('w, unit) prog" where
  "fs_writeJSON sys p v = call (WriteJSON p v) (sys_writeJSON sys p v)"

definition fs_writeFile :: "'w sys \<Rightarrow> string \<Rightarrow> string \<Rightarrow> ('w, unit) prog" where
  "fs_writeFile sys p c = call (WriteFile p c) (sys_writeFile sys p c)"

definition fs_ensureDir :: "'w sys \<Rightarrow> string \<Rightarrow> ('w, unit) prog" where
  "fs_ensureDir sys d = call (EnsureDir d) (sys_ensureDir sys d)"

definition fs_ensureSymlink :: "'w sys \<Rightarrow> string \<Rightarrow> string \<Rightarrow> ('w, unit) prog" where
  "fs_ensureSymlink sys src dst = call (EnsureSymlink src dst) (sys_ensureSymlink sys src dst)"

definition fs_move :: "'w sys \<Rightarrow> string \<Rightarrow> string \<Rightarrow> ('w, unit) prog" where
  "fs_move sys src dst = call (Move src dst) (sys_move sys src dst)"

definition fs_remove :: "'w sys \<Rightarrow> string \<Rightarrow> ('w, unit) prog" where
  "fs_remove sys p = call (Remove p) (sys_remove sys p)"

definition fs_promises_mkdir :: "'w sys \<Rightarrow> string \<Rightarrow> ('w, unit) prog" where
  "fs_promises_mkdir sys d = call (Mkdir d) (sys_mkdir sys d)"

definition getSourcePlugins :: "'w sys \<Rightarrow> ('w, InstalledPluginDetails list) prog" where
  "getSourcePlugins sys = call GetSourcePlugins (sys_getSourcePlugins sys)"

definition getPluginSourceFolders :: "'w sys \<Rightarrow> ('w, string list) prog" where
  "getPluginSourceFolders sys = call GetPluginSourceFolders (sys_getPluginSourceFolders sys)"

definition getAppWatchFolders :: "'w sys \<Rightarrow> ('w, string list) prog" where
  "getAppWatchFolders sys = call GetAppWatchFolders (sys_getAppWatchFolders sys)"

definition getWatchFolders :: "'w sys \<Rightarrow> string \<Rightarrow> ('w, string list) prog" where
  "getWatchFolders sys d = call (GetWatchFolders d) (sys_getWatchFolders sys d)"

definition runBuild :: "'w sys \<Rightarrow> string \<Rightarrow> bool \<Rightarrow> ('w, unit) prog" where
  "runBuild sys d dv = call (RunBuild d dv) (sys_runBuild sys d dv)"

definition require_electron_version :: "'w sys \<Rightarrow> ('w, string) prog" where
  "require_electron_version sys = call RequireElectronVersion (sys_electronVersion sys)"

definition Metro_loadConfig :: "'w sys \<Rightarrow> ('w, (string \<times> string) list) prog" where
  "Metro_loadConfig sys = call MetroLoadConfig (sys_MetroLoadConfig sys)"

definition Metro_runBuild :: "'w sys \<Rightarrow> metro_config \<Rightarrow> metro_options \<Rightarrow> ('w, unit) prog" where
  "Metro_runBuild sys c opts = call (MetroRunBuild c opts) (sys_MetroRunBuild sys c opts)"

text \<open>
  \<^verbatim>\<open>stripSourceMapComment\<close> of \<^verbatim>\<open>flipper-pkg-lib\<close> is asynchronous, and the module writes
  \<^verbatim>\<open>stripSourceMapComment(out);\<close> with no \<^verbatim>\<open>await\<close>, in all three compilations: the call is
  started, not awaited.
\<close>

definition stripSourceMapComment :: "'w sys \<Rightarrow> string \<Rightarrow> ('w, unit) prog" where
  "stripSourceMapComment sys p = start (StripSourceMapComment p) (sys_stripSourceMapComment sys p)"

subsection \<open>Preparing the default plugins\<close>

text \<open>
  The messages of the module start with a pictograph (a gear, a check mark, a cross)
  and two spaces. Strings here are ASCII, so a message is kept from its first letter.
\<close>

definition hardcodedPlugins :: "string set" where
  "hardcodedPlugins =
     {''DeviceLogs'', ''CrashReporter'', ''MobileBuilds'', ''Hermesdebuggerrn'', ''React'',
      ''Inspector'', ''Network'', ''AnalyticsLogging'', ''GraphQL'', ''UIPerf'',
      ''MobileConfig'', ''Databases'', ''FunnelLogger'', ''Navigation'', ''Fresco'',
      ''Preferences''}"

definition die :: "error \<Rightarrow> ('w, 'a) prog" where
  "die err = seq (console_error ''Script termnated.'' err) (process_exit 1)"

text \<open>
  \<^verbatim>\<open>defaultPlugins.map((p) => ({...p, isBundled: true, version: ..., ...}))\<close>
\<close>

definition bundledPlugins :: "string \<Rightarrow> InstalledPluginDetails list \<Rightarrow> BundledPluginDetails list" where
  "bundledPlugins v defaultPlugins =
     map (\<lambda>p. \<lparr> id' = id' p,
                name = name p,
                version = (if version p = ''0.0.0'' then v else version p),
                flipperSDKVersion =
                  (if flipperSDKVersion p = Some ''0.0.0'' then Some v else flipperSDKVersion p),
                isBundled = True,
                dir = None,
                entry = None,
                others = others p \<rparr>) defaultPlugins"

definition quote :: string where
  "quote = [CHR 0x27]"

definition nl :: string where
  "nl = [CHR 0x0A]"

definition requireLine :: "BundledPluginDetails \<Rightarrow> string" where
  "requireLine x =
     ''  '' @ quote @ name x @ quote @ '': tryRequire('' @ quote @ name x @ quote
       @ '', () => require('' @ quote @ name x @ quote @ ''))''"

definition pluginRequres :: "BundledPluginDetails list \<Rightarrow> string" where
  "pluginRequres bundled = join ('','' @ nl) (map requireLine bundled)"

definition generatedIndex :: "string \<Rightarrow> string" where
  \<open>generatedIndex requires =
     nl @ ''  /* eslint-disable */'' @ nl
     @ ''  // THIS FILE IS AUTO-GENERATED by function "generateDefaultPluginEntryPoints" in "build-utils.ts".'' @ nl
     @ nl
     @ ''  declare const require: any;'' @ nl
     @ nl
     @ ''  // This function exists to make sure that if one require fails in its module initialisation, not everything fails'' @ nl
     @ ''  function tryRequire(module: string, fn: () => any): any {'' @ nl
     @ ''    try {'' @ nl
     @ ''      return fn();'' @ nl
     @ ''    } catch (e) {'' @ nl
     @ ''      console.error(`Could not require ${module}: `, e)'' @ nl
     @ ''      return {};'' @ nl
     @ ''    }'' @ nl
     @ ''  }'' @ nl
     @ nl
     @ ''  export default {'' @ nl @ requires @ nl @ ''} as any'' @ nl
     @ ''  ''\<close>

definition generateDefaultPluginEntryPoints ::
  "'w sys \<Rightarrow> globals \<Rightarrow> InstalledPluginDetails list \<Rightarrow> ('w, unit) prog" where
  "generateDefaultPluginEntryPoints sys G defaultPlugins =
     seq (console_log (''Generating entry points for '' @ show_nat (length defaultPlugins)
            @ '' bundled plugins...''))
    (seq (fs_writeJSON sys (path_join [defaultPluginsDir G, ''bundled.json''])
            (bundledPlugins (version_pkg G) defaultPlugins))
    (seq (fs_ensureDir sys (path_join [appDir G, ''src'', ''defaultPlugins'']))
    (seq (fs_writeFile sys (path_join [appDir G, ''src'', ''defaultPlugins'', ''index.tsx''])
            (generatedIndex (pluginRequres (bundledPlugins (version_pkg G) defaultPlugins))))
    (seq (fs_ensureDir sys (path_join [browserUiDir G, ''src'', ''defaultPlugins'']))
    (seq (fs_writeFile sys (path_join [browserUiDir G, ''src'', ''defaultPlugins'', ''index.tsx''])
            (generatedIndex (pluginRequres (bundledPlugins (version_pkg G) defaultPlugins))))
         (console_log ''Generated bundled plugin entry points.''))))))"

text \<open>The body of the loop of \<^verbatim>\<open>buildDefaultPlugins\<close>: its \<^verbatim>\<open>try\<close> statement.\<close>

definition buildDefaultPlugins_body ::
  "'w sys \<Rightarrow> globals \<Rightarrow> env \<Rightarrow> InstalledPluginDetails \<Rightarrow> ('w, unit) prog" where
  "buildDefaultPlugins_body sys G E plugin =
     tryCatch
       (seq (if \<not> truthy (FLIPPER_NO_REBUILD_PLUGINS E)
             then seq (console_log (''Building plugin '' @ id' plugin
                         @ '' to include it into the default plugins list...''))
                      (runBuild sys (dir plugin) (dev E))
             else return ())
            (fs_ensureSymlink sys (dir plugin) (path_join [defaultPluginsDir G, name plugin])))
       (\<lambda>err. console_error (''Failed to build plugin '' @ id' plugin) err)"

definition buildDefaultPlugins ::
  "'w sys \<Rightarrow> globals \<Rightarrow> env \<Rightarrow> InstalledPluginDetails list \<Rightarrow> ('w, unit) prog" where
  \<open>buildDefaultPlugins sys G E defaultPlugins =
     seq (if truthy (FLIPPER_NO_REBUILD_PLUGINS E)
          then console_log (''Including '' @ show_nat (length defaultPlugins)
                 @ '' plugins into the default plugins list. Skipping rebuilding because "no-rebuild-plugins" option provided. List of default plugins: ''
                 @ join '', '' (map id' defaultPlugins))
          else return ())
         (forOf defaultPlugins (buildDefaultPlugins_body sys G E))\<close>

text \<open>
  \<^verbatim>\<open>sourcePlugins.filter((p) => !isInsidersBuild || hardcodedPlugins.has(p.id))\<close>,
  the constant \<^verbatim>\<open>defaultPlugins\<close> of \<^verbatim>\<open>prepareDefaultPlugins\<close>.
\<close>

definition defaultPlugins_of :: "bool \<Rightarrow> InstalledPluginDetails list \<Rightarrow> InstalledPluginDetails list" where
  "defaultPlugins_of isInsidersBuild sourcePlugins =
     filter (\<lambda>p. \<not> isInsidersBuild \<or> id' p \<in> hardcodedPlugins) sourcePlugins"

definition prepareDefaultPlugins :: "'w sys \<Rightarrow> globals \<Rightarrow> env \<Rightarrow> bool \<Rightarrow> ('w, unit) prog" where
  \<open>prepareDefaultPlugins sys G E isInsidersBuild =
     seq (console_log (''Preparing default plugins (isInsidersBuild=''
            @ show_bool isInsidersBuild @ '')...''))
    (seq (fs_emptyDir sys (defaultPluginsDir G))
    (seq (if truthy (FLIPPER_DEFAULT_PLUGINS_DIR E) then
            (let forcedDefaultPluginsDir = the (FLIPPER_DEFAULT_PLUGINS_DIR E) in
             seq (console_log (''Copying the provided default plugins dir "''
                    @ forcedDefaultPluginsDir @ ''"...''))
            (seq (fs_copy sys forcedDefaultPluginsDir (defaultPluginsDir G))
            (seq (console_log ''Copied the provided default plugins dir.'')
                 (generateDefaultPluginEntryPoints sys G []))))
          else
            await (if truthy (FLIPPER_NO_DEFAULT_PLUGINS E) then return []
                   else getSourcePlugins sys)
              (\<lambda>sourcePlugins.
                 if truthy (FLIPPER_NO_BUNDLED_PLUGINS E) then
                   seq (buildDefaultPlugins sys G E (defaultPlugins_of isInsidersBuild sourcePlugins))
                       (generateDefaultPluginEntryPoints sys G [])
                 else
                   generateDefaultPluginEntryPoints sys G
                     (defaultPlugins_of isInsidersBuild sourcePlugins)))
         (console_log ''Prepared default plugins.'')))\<close>

subsection \<open>Compiling the bundles\<close>

definition minifierConfig :: minifier_config where
  "minifierConfig =
     \<lparr> keep_fnames = True, module = True, warnings = True, mangle = False, compress = False \<rparr>"

text \<open>The regular expression \<^verbatim>\<open>/\.native\.js$/\<close>, as its source text.\<close>

definition native_js_RE :: string where
  "native_js_RE = [CHR 0x5C] @ ''.native'' @ [CHR 0x5C] @ ''.js$''"

text \<open>
  The two object literals of each call to \<^verbatim>\<open>Metro.runBuild\<close> are named after the
  function that builds them, so that a statement can speak of them.
\<close>

definition compile_config :: "globals \<Rightarrow> string \<Rightarrow> string list \<Rightarrow> metro_config" where
  "compile_config G projectRoot' watchFolders' =
     \<lparr> loaded = None,
       projectRoot = projectRoot',
       watchFolders = Some watchFolders',
       serializer = True,
       transformer_c =
         \<lparr> babelTransformerPath = path_join [babelTransformationsDir G, ''transform-app''],
           minifierPath_t = minifierPath G,
           minifierConfig_t = minifierConfig \<rparr>,
       resolver_c =
         \<lparr> resolverMainFields = [''flipperBundlerEntry'', ''module'', ''main''],
           blacklistRE = Some native_js_RE,
           sourceExts = [''js'', ''jsx'', ''ts'', ''tsx'', ''json'', ''mjs'', ''cjs''] \<rparr> \<rparr>"

definition compile_options :: "env \<Rightarrow> string \<Rightarrow> string \<Rightarrow> metro_options" where
  "compile_options E entry' out' =
     \<lparr> platform = None,
       entry_o = entry',
       out = out',
       dev_o = dev E,
       minify = (\<not> dev E),
       resetCache = (\<not> dev E),
       sourceMap = True,
       sourceMapUrl = (if dev E then Some ''bundle.map'' else None),
       inlineSourceMap = False \<rparr>"

definition compile :: "'w sys \<Rightarrow> globals \<Rightarrow> env \<Rightarrow> string \<Rightarrow> string \<Rightarrow> string list \<Rightarrow> string \<Rightarrow> ('w, unit) prog" where
  "compile sys G E buildFolder projectRoot' watchFolders' entry' =
     (let out' = path_join [buildFolder, ''bundle.js''] in
      seq (Metro_runBuild sys (compile_config G projectRoot' watchFolders')
             (compile_options E entry' out'))
          (if \<not> dev E then stripSourceMapComment sys out' else return ()))"

definition compileRenderer :: "'w sys \<Rightarrow> globals \<Rightarrow> env \<Rightarrow> string \<Rightarrow> ('w, unit) prog" where
  "compileRenderer sys G E buildFolder =
     seq (console_log ''Compiling renderer bundle...'')
    (await (getAppWatchFolders sys) (\<lambda>appWatchFolders.
     await (getPluginSourceFolders sys) (\<lambda>pluginSourceFolders.
     tryCatch
       (seq (compile sys G E buildFolder (appDir G) (appWatchFolders @ pluginSourceFolders)
               (path_join [appDir G, ''src'', ''init.tsx'']))
            (console_log ''Compiled renderer bundle.''))
       (\<lambda>err. die err))))"

definition moveSourceMaps :: "'w sys \<Rightarrow> globals \<Rightarrow> string \<Rightarrow> string option \<Rightarrow> ('w, unit) prog" where
  "moveSourceMaps sys G buildFolder sourceMapFolder =
     seq (console_log ''Moving source maps...'')
    (let mainBundleMap = path_join [buildFolder, ''bundle.map''];
         rendererBundleMap = path_join [staticDir G, ''main.bundle.map'']
     in if truthy sourceMapFolder then
          seq (fs_ensureDir sys (the sourceMapFolder))
         (seq (fs_move sys mainBundleMap (path_join [the sourceMapFolder, ''bundle.map'']))
         (seq (fs_move sys rendererBundleMap (path_join [the sourceMapFolder, ''main.bundle.map'']))
              (console_log (''Moved to '' @ the sourceMapFolder @ ''.''))))
        else
          seq (fs_remove sys mainBundleMap)
         (seq (fs_remove sys rendererBundleMap)
              (console_log ''Removing source maps.'')))"

definition compileMain_config :: "globals \<Rightarrow> (string \<times> string) list \<Rightarrow> string list \<Rightarrow> metro_config" where
  "compileMain_config G loadedConfig watchFolders' =
     \<lparr> loaded = Some loadedConfig,
       projectRoot = staticDir G,
       watchFolders = Some watchFolders',
       serializer = False,
       transformer_c =
         \<lparr> babelTransformerPath = path_join [babelTransformationsDir G, ''transform-main''],
           minifierPath_t = minifierPath G,
           minifierConfig_t = minifierConfig \<rparr>,
       resolver_c =
         \<lparr> resolverMainFields = [''flipperBundlerEntry'', ''module'', ''main''],
           blacklistRE = Some native_js_RE,
           sourceExts = [''tsx'', ''ts'', ''js''] \<rparr> \<rparr>"

definition compileMain_options :: "globals \<Rightarrow> env \<Rightarrow> metro_options" where
  "compileMain_options G E =
     \<lparr> platform = Some ''web'',
       entry_o = path_join [staticDir G, ''main.ts''],
       out = path_join [staticDir G, ''main.bundle.js''],
       dev_o = dev E,
       minify = (\<not> dev E),
       resetCache = (\<not> dev E),
       sourceMap = True,
       sourceMapUrl = (if dev E then Some ''main.bundle.map'' else None),
       inlineSourceMap = False \<rparr>"

definition compileMain :: "'w sys \<Rightarrow> globals \<Rightarrow> env \<Rightarrow> ('w, unit) prog" where
  "compileMain sys G E =
     (let out' = path_join [staticDir G, ''main.bundle.js''] in
      await (require_electron_version sys) (\<lambda>electronVersion.
      seq (set_env ''FLIPPER_ELECTRON_VERSION'' electronVersion)
     (seq (console_log ''Compiling main bundle...'')
     (tryCatch
        (await (Metro_loadConfig sys) (\<lambda>loadedConfig.
         await (getWatchFolders sys (staticDir G)) (\<lambda>watchFolders'.
         seq (Metro_runBuild sys (compileMain_config G loadedConfig watchFolders')
                (compileMain_options G E))
        (seq (console_log ''Compiled main bundle.'')
             (if \<not> dev E then stripSourceMapComment sys out' else return ())))))
        (\<lambda>err. die err)))))"

definition compileServerMain_config :: "globals \<Rightarrow> (string \<times> string) list \<Rightarrow> metro_config" where
  "compileServerMain_config G loadedConfig =
     \<lparr> loaded = Some loadedConfig,
       projectRoot = rootDir G,
       watchFolders = None,
       serializer = False,
       transformer_c =
         \<lparr> babelTransformerPath = path_join [babelTransformationsDir G, ''transform-server''],
           minifierPath_t = minifierPath G,
           minifierConfig_t = minifierConfig \<rparr>,
       resolver_c =
         \<lparr> resolverMainFields = [''flipperBundlerEntry'', ''module'', ''main''],
           blacklistRE = None,
           sourceExts = [''tsx'', ''ts'', ''js'', ''json''] \<rparr> \<rparr>"

definition compileServerMain_options :: "globals \<Rightarrow> env \<Rightarrow> metro_options" where
  "compileServerMain_options G E =
     \<lparr> platform = Some ''node'',
       entry_o = path_join [serverDir G, ''src'', ''index.tsx''],
       out = path_join [serverDir G, ''dist'', ''index.js''],
       dev_o = dev E,
       minify = (\<not> dev E),
       resetCache = (\<not> dev E),
       sourceMap = True,
       sourceMapUrl = (if dev E then Some ''index.map'' else None),
       inlineSourceMap = False \<rparr>"

definition compileServerMain :: "'w sys \<Rightarrow> globals \<Rightarrow> env \<Rightarrow> ('w, unit) prog" where
  "compileServerMain sys G E =
     seq (fs_promises_mkdir sys (path_join [serverDir G, ''dist'']))
    (let out' = path_join [serverDir G, ''dist'', ''index.js''] in
     seq (console_log ''Compiling server bundle...'')
    (await (Metro_loadConfig sys) (\<lambda>loadedConfig.
     seq (Metro_runBuild sys (compileServerMain_config G loadedConfig)
            (compileServerMain_options G E))
    (seq (console_log ''Compiled server bundle.'')
         (if \<not> dev E then stripSourceMapComment sys out' else return ())))))"

subsection \<open>A file system for \<^verbatim>\<open>fs-extra\<close>\<close>

text \<open>
  Where a claim is about the files a function leaves, the world is a file system: a
  map from a path, in normal form, to what is there. The operations follow the
  documentation of \<^verbatim>\<open>fs-extra\<close> (as of its versions 9 and 10) and of Node's \<^verbatim>\<open>fs\<close>, with these limits: links are
  not followed, a manifest is kept as the value that \<^verbatim>\<open>writeJSON\<close> serialises, and the
  only failures are the ones a path can cause (a missing source, a file where a
  directory is needed, a target inside its source).
\<close>

datatype content = Text string | Json "BundledPluginDetails list"

datatype node = File content | Directory | Link string

type_synonym filesystem = "string \<Rightarrow> node option"

text \<open>\<open>under d p\<close>: the path \<open>p\<close> is below the directory \<open>d\<close>.\<close>

definition under :: "string \<Rightarrow> string \<Rightarrow> bool" where
  "under d p = prefix (d @ ''/'') p"

text \<open>The directories above a path, and \<^verbatim>\<open>path.dirname\<close>.\<close>

definition ancestors :: "string \<Rightarrow> string list" where
  "ancestors p = map (\<lambda>i. take i p) (filter (\<lambda>i. p ! i = CHR ''/'') [1..<length p])"

definition chain :: "string \<Rightarrow> string list" where
  "chain d = d # ancestors d"

definition dirname :: "string \<Rightarrow> string" where
  "dirname p =
     (let r = dropWhile (\<lambda>c. c \<noteq> CHR ''/'') (rev p)
      in if r = [] then ''.'' else if tl r = [] then ''/'' else rev (tl r))"

text \<open>
  \<^verbatim>\<open>mkdir -p\<close>: every missing directory down to \<open>d\<close> is created; it fails when \<open>d\<close> or
  a path above it is there and is no directory.
\<close>

definition mkdirp :: "filesystem \<Rightarrow> string \<Rightarrow> error + filesystem" where
  "mkdirp fs d =
     (if list_ex (\<lambda>a. fs a \<noteq> None \<and> fs a \<noteq> Some Directory) (chain d)
      then Inl (Error ''ENOTDIR'')
      else Inr (\<lambda>q. if fs q = None \<and> q \<in> set (chain d) then Some Directory else fs q))"

definition rm_rf :: "filesystem \<Rightarrow> string \<Rightarrow> filesystem" where
  "rm_rf fs p = (\<lambda>q. if q = p \<or> under p q then None else fs q)"

text \<open>
  \<^verbatim>\<open>rename\<close>: a file or a link moves alone, a directory moves with all that is below
  it.
\<close>

definition rename :: "filesystem \<Rightarrow> string \<Rightarrow> string \<Rightarrow> filesystem" where
  "rename fs src dst =
     (case fs src of
        Some Directory \<Rightarrow>
          (\<lambda>q. if q = dst then Some Directory
                else if under dst q then fs (src @ drop (length dst) q)
                else if q = src \<or> under src q then None
                else fs q)
      | n \<Rightarrow> (\<lambda>q. if q = dst then n else if q = src then None else fs q))"

definition emptyDir_fs :: "string \<Rightarrow> (filesystem, unit) ext" where
  "emptyDir_fs d fs =
     (case mkdirp fs d of
        Inl e \<Rightarrow> (Inl e, fs)
      | Inr fs' \<Rightarrow> (Inr (), (\<lambda>q. if under d q then None else fs' q)))"

definition ensureDir_fs :: "string \<Rightarrow> (filesystem, unit) ext" where
  "ensureDir_fs d fs =
     (case mkdirp fs d of Inl e \<Rightarrow> (Inl e, fs) | Inr fs' \<Rightarrow> (Inr (), fs'))"

definition remove_fs :: "string \<Rightarrow> (filesystem, unit) ext" where
  "remove_fs p fs = (Inr (), rm_rf fs p)"

text \<open>
  \<^verbatim>\<open>fs.move(src, dst, {overwrite: true})\<close>: the source must exist, differ from the
  target and, when a directory, not contain it. The directory of the target is created,
  the target removed, then the source renamed.
\<close>

definition move_fs :: "string \<Rightarrow> string \<Rightarrow> (filesystem, unit) ext" where
  "move_fs src dst fs =
     (if fs src = None then (Inl (Error ''ENOENT''), fs)
      else if src = dst then (Inl (Error ''Source and destination must not be the same.''), fs)
      else if fs src = Some Directory \<and> under src dst
        then (Inl (Error ''Cannot move to a subdirectory of itself.''), fs)
      else case mkdirp fs (dirname dst) of
        Inl e \<Rightarrow> (Inl e, fs)
      | Inr fs1 \<Rightarrow>
          (let fs2 = rm_rf fs1 dst
           in if fs2 src = None then (Inl (Error ''ENOENT''), fs2)
              else (Inr (), rename fs2 src dst)))"

text \<open>
  \<^verbatim>\<open>fs.copy(src, dst, {recursive: true, overwrite: true, dereference: true})\<close>: what is
  at and below the source is laid over the target.
\<close>

definition copy_fs :: "string \<Rightarrow> string \<Rightarrow> (filesystem, unit) ext" where
  "copy_fs src dst fs =
     (if fs src = None then (Inl (Error ''ENOENT''), fs)
      else if src = dst then (Inl (Error ''Source and destination must not be the same.''), fs)
      else if fs src = Some Directory \<and> under src dst
        then (Inl (Error ''Cannot copy to a subdirectory of itself.''), fs)
      else if fs src = Some Directory \<and> fs dst \<noteq> None \<and> fs dst \<noteq> Some Directory
        then (Inl (Error ''Cannot overwrite non-directory with directory.''), fs)
      else if fs src \<noteq> Some Directory \<and> fs dst = Some Directory
        then (Inl (Error ''Cannot overwrite directory with non-directory.''), fs)
      else case mkdirp fs (dirname dst) of
        Inl e \<Rightarrow> (Inl e, fs)
      | Inr fs1 \<Rightarrow>
          (Inr (),
           (\<lambda>q. if q = dst then fs src
                 else if fs src = Some Directory \<and> under dst q
                         \<and> fs (src @ drop (length dst) q) \<noteq> None
                   then fs (src @ drop (length dst) q)
                 else fs1 q)))"

definition dir_exists :: "filesystem \<Rightarrow> string \<Rightarrow> bool" where
  "dir_exists fs d = (d = ''/'' \<or> d = ''.'' \<or> fs d = Some Directory)"

definition write_fs :: "string \<Rightarrow> content \<Rightarrow> (filesystem, unit) ext" where
  "write_fs p c fs =
     (if \<not> dir_exists fs (dirname p) then (Inl (Error ''ENOENT''), fs)
      else if fs p = Some Directory then (Inl (Error ''EISDIR''), fs)
      else (Inr (), fs(p \<mapsto> File c)))"

definition ensureSymlink_fs :: "string \<Rightarrow> string \<Rightarrow> (filesystem, unit) ext" where
  "ensureSymlink_fs src dst fs =
     (if fs dst = Some (Link src) then (Inr (), fs)
      else if fs src = None then (Inl (Error ''ENOENT''), fs)
      else case mkdirp fs (dirname dst) of
        Inl e \<Rightarrow> (Inl e, fs)
      | Inr fs1 \<Rightarrow>
          if fs1 dst \<noteq> None then (Inl (Error ''EEXIST''), fs1)
          else (Inr (), fs1(dst \<mapsto> Link src)))"

text \<open>
  The system whose file operations are the ones above; the packages and Metro are
  taken from \<open>pkgs\<close>.
\<close>

definition fs_extra :: "filesystem sys \<Rightarrow> filesystem sys" where
  "fs_extra pkgs =
     pkgs \<lparr> sys_emptyDir := emptyDir_fs,
            sys_copy := copy_fs,
            sys_writeJSON := (\<lambda>p v. write_fs p (Json v)),
            sys_writeFile := (\<lambda>p c. write_fs p (Text c)),
            sys_ensureDir := ensureDir_fs,
            sys_ensureSymlink := ensureSymlink_fs,
            sys_move := move_fs,
            sys_remove := remove_fs,
            sys_mkdir := ensureDir_fs \<rparr>"

subsection \<open>Reading a run\<close>

text \<open>\<open>emit es r\<close>: the run \<open>r\<close>, after the calls \<open>es\<close>.\<close>

definition emit :: "event list \<Rightarrow> 'a outcome \<times> 'w \<times> event list \<Rightarrow> 'a outcome \<times> 'w \<times> event list" where
  "emit es r = (fst r, fst (snd r), es @ snd (snd r))"

text \<open>The calls of \<^verbatim>\<open>generateDefaultPluginEntryPoints\<close> when none of them throws.\<close>

definition generate_calls :: "globals \<Rightarrow> InstalledPluginDetails list \<Rightarrow> event list" where
  "generate_calls G L =
     [ConsoleLog (''Generating entry points for '' @ show_nat (length L) @ '' bundled plugins...''),
      WriteJSON (path_join [defaultPluginsDir G, ''bundled.json'']) (bundledPlugins (version_pkg G) L),
      EnsureDir (path_join [appDir G, ''src'', ''defaultPlugins'']),
      WriteFile (path_join [appDir G, ''src'', ''defaultPlugins'', ''index.tsx''])
        (generatedIndex (pluginRequres (bundledPlugins (version_pkg G) L))),
      EnsureDir (path_join [browserUiDir G, ''src'', ''defaultPlugins'']),
      WriteFile (path_join [browserUiDir G, ''src'', ''defaultPlugins'', ''index.tsx''])
        (generatedIndex (pluginRequres (bundledPlugins (version_pkg G) L))),
      ConsoleLog ''Generated bundled plugin entry points.'']"

text \<open>
  What a list of calls holds: the plugin directories handed to \<^verbatim>\<open>runBuild\<close>, the links
  asked of \<^verbatim>\<open>ensureSymlink\<close>, and the errors written to the console.
\<close>

fun built :: "event list \<Rightarrow> string list" where
  "built [] = []"
| "built (RunBuild d b # es) = d # built es"
| "built (_ # es) = built es"

fun linked :: "event list \<Rightarrow> (string \<times> string) list" where
  "linked [] = []"
| "linked (EnsureSymlink s d # es) = (s, d) # linked es"
| "linked (_ # es) = linked es"

fun failures :: "event list \<Rightarrow> (string \<times> error) list" where
  "failures [] = []"
| "failures (ConsoleError m e # es) = (m, e) # failures es"
| "failures (_ # es) = failures es"

text \<open>The manifests handed to \<^verbatim>\<open>writeJSON\<close> and the texts handed to \<^verbatim>\<open>writeFile\<close>.\<close>

fun manifests :: "event list \<Rightarrow> (string \<times> BundledPluginDetails list) list" where
  "manifests [] = []"
| "manifests (WriteJSON p v # es) = (p, v) # manifests es"
| "manifests (_ # es) = manifests es"

fun loaders :: "event list \<Rightarrow> (string \<times> string) list" where
  "loaders [] = []"
| "loaders (WriteFile p c # es) = (p, c) # loaders es"
| "loaders (_ # es) = loaders es"

text \<open>The calls to Metro, and those calls with the calls to \<^verbatim>\<open>stripSourceMapComment\<close>, in order.\<close>

fun metro_calls :: "event list \<Rightarrow> (metro_config \<times> metro_options) list" where
  "metro_calls [] = []"
| "metro_calls (MetroRunBuild c opts # es) = (c, opts) # metro_calls es"
| "metro_calls (_ # es) = metro_calls es"

fun bundling :: "event list \<Rightarrow> (metro_options + string) list" where
  "bundling [] = []"
| "bundling (MetroRunBuild c opts # es) = Inl opts # bundling es"
| "bundling (StripSourceMapComment p # es) = Inr p # bundling es"
| "bundling (_ # es) = bundling es"


subsection \<open>A system to run the module on\<close>

text \<open>
  A small installation: three source plugins, of which \<^verbatim>\<open>Sandbox\<close> is outside the
  allow-list and has no directory to build, the entry modules of the three bundles, the
  two source maps, and a directory of prebuilt plugins. Building a plugin creates its
  \<^verbatim>\<open>dist\<close> directory and fails when the plugin has no directory; Metro writes the
  bundle and fails when the entry module is missing.
\<close>

definition demo_G :: globals where
  "demo_G =
     \<lparr> appDir = ''/r/app'', staticDir = ''/r/static'',
       defaultPluginsDir = ''/r/static/defaultPlugins'',
       babelTransformationsDir = ''/r/babel'', serverDir = ''/r/server'', rootDir = ''/r'',
       browserUiDir = ''/r/ui'', version_pkg = ''0.99.0'', minifierPath = ''/r/terser'' \<rparr>"

definition demo_plugins :: "InstalledPluginDetails list" where
  "demo_plugins =
     [\<lparr> id' = ''Network'', name = ''net'', version = ''0.0.0'',
        flipperSDKVersion = Some ''0.0.0'', isBundled = False, dir = ''/p/net'',
        entry = ''/p/net/dist/bundle.js'', others = [(''title'', ''Network'')] \<rparr>,
      \<lparr> id' = ''Sandbox'', name = ''sandbox'', version = ''1.2.3'',
        flipperSDKVersion = None, isBundled = False, dir = ''/p/sandbox'',
        entry = ''/p/sandbox/dist/bundle.js'', others = [] \<rparr>,
      \<lparr> id' = ''Inspector'', name = ''layout'', version = ''0.5.0'',
        flipperSDKVersion = Some ''0.50.0'', isBundled = False, dir = ''/p/layout'',
        entry = ''/p/layout/dist/bundle.js'', others = [] \<rparr>]"

definition demo_fs :: filesystem where
  "demo_fs = map_of
     [(''/r'', Directory), (''/r/static'', Directory),
      (''/r/static/defaultPlugins'', Directory),
      (''/r/static/defaultPlugins/stale'', File (Text ''old'')),
      (''/r/static/main.ts'', File (Text ''main'')),
      (''/r/static/main.bundle.map'', File (Text ''main map'')),
      (''/r/app'', Directory), (''/r/app/src'', Directory),
      (''/r/app/src/init.tsx'', File (Text ''init'')),
      (''/r/server'', Directory), (''/r/server/src'', Directory),
      (''/r/server/src/index.tsx'', File (Text ''server'')),
      (''/p'', Directory), (''/p/net'', Directory), (''/p/layout'', Directory),
      (''/o'', Directory), (''/o/pre'', File (Text ''prebuilt'')),
      (''/tmp'', Directory), (''/tmp/b'', Directory),
      (''/tmp/b/bundle.map'', File (Text ''renderer map''))]"

definition demo_sys :: "filesystem sys" where
  "demo_sys =
     \<lparr> sys_emptyDir = emptyDir_fs,
       sys_copy = copy_fs,
       sys_writeJSON = (\<lambda>p v. write_fs p (Json v)),
       sys_writeFile = (\<lambda>p c. write_fs p (Text c)),
       sys_ensureDir = ensureDir_fs,
       sys_ensureSymlink = ensureSymlink_fs,
       sys_move = move_fs,
       sys_remove = remove_fs,
       sys_mkdir = ensureDir_fs,
       sys_getSourcePlugins = (\<lambda>fs. (Inr demo_plugins, fs)),
       sys_getPluginSourceFolders = (\<lambda>fs. (Inr [''/p''], fs)),
       sys_getAppWatchFolders = (\<lambda>fs. (Inr [''/r/app''], fs)),
       sys_getWatchFolders = (\<lambda>d fs. (Inr [d], fs)),
       sys_runBuild = (\<lambda>d dv fs.
          if fs d = Some Directory then (Inr (), fs(d @ ''/dist'' \<mapsto> Directory))
          else (Inl (Error ''nothing to build''), fs)),
       sys_electronVersion = (\<lambda>fs. (Inr ''18.2.0'', fs)),
       sys_MetroLoadConfig = (\<lambda>fs. (Inr [], fs)),
       sys_MetroRunBuild = (\<lambda>c opts fs.
          if fs (entry_o opts) = None then (Inl (Error ''entry not found''), fs)
          else (Inr (), fs(out opts \<mapsto> File (Text ''bundle'')))),
       sys_stripSourceMapComment = (\<lambda>p fs.
          if fs p = None then (Inl (Error ''ENOENT''), fs) else (Inr (), fs)) \<rparr>"

definition demo_E :: env where
  "demo_E = \<lparr> NODE_ENV = None, FLIPPER_DEFAULT_PLUGINS_DIR = None, FLIPPER_NO_DEFAULT_PLUGINS = None,
     FLIPPER_NO_BUNDLED_PLUGINS = None, FLIPPER_NO_REBUILD_PLUGINS = None \<rparr>"


section \<open>Running programs\<close>

lemma result_simps [simp]:
  "outcome_of (r, w, es) = r" "world_of (r, w, es) = w" "events_of (r, w, es) = es"
  by (simp_all add: outcome_of_def world_of_def events_of_def)

lemma emit_simps [simp]:
  "emit es (r, w, es') = (r, w, es @ es')"
  "outcome_of (emit es x) = outcome_of x"
  "world_of (emit es x) = world_of x"
  "events_of (emit es x) = es @ events_of x"
  "emit es (emit es' x) = emit (es @ es') x"
  by (simp_all add: emit_def outcome_of_def world_of_def events_of_def)

lemma await_run:
  "await m k w = (case outcome_of (m w) of
       Returned x \<Rightarrow> emit (events_of (m w)) (k x (world_of (m w)))
     | Threw e \<Rightarrow> (Threw e, world_of (m w), events_of (m w))
     | Exited n \<Rightarrow> (Exited n, world_of (m w), events_of (m w)))"
  by (cases "m w" rule: prod_cases3) (auto simp: await_def emit_def split: outcome.splits prod.splits)

lemma seq_run:
  "seq m k w = (case outcome_of (m w) of
       Returned x \<Rightarrow> emit (events_of (m w)) (k (world_of (m w)))
     | Threw e \<Rightarrow> (Threw e, world_of (m w), events_of (m w))
     | Exited n \<Rightarrow> (Exited n, world_of (m w), events_of (m w)))"
  by (simp add: seq_def await_run)

lemma tryCatch_run:
  "tryCatch m h w = (case outcome_of (m w) of
       Threw e \<Rightarrow> emit (events_of (m w)) (h e (world_of (m w)))
     | Returned x \<Rightarrow> (Returned x, world_of (m w), events_of (m w))
     | Exited n \<Rightarrow> (Exited n, world_of (m w), events_of (m w)))"
  by (cases "m w" rule: prod_cases3) (auto simp: tryCatch_def emit_def split: outcome.splits prod.splits)

lemma run_console_log [simp]: "console_log msg w = (Returned (), w, [ConsoleLog msg])"
  by (simp add: console_log_def)

lemma run_console_error [simp]: "console_error msg e w = (Returned (), w, [ConsoleError msg e])"
  by (simp add: console_error_def)

lemma run_return [simp]: "return x w = (Returned x, w, [])"
  by (simp add: return_def)

lemma run_process_exit [simp]: "process_exit n w = (Exited n, w, [ProcessExit n])"
  by (simp add: process_exit_def)

lemma run_die [simp]:
  "die err w = (Exited 1, w, [ConsoleError ''Script termnated.'' err, ProcessExit 1])"
  by (simp add: die_def seq_run)

lemma run_call:
  "call ev f w =
     (case fst (f w) of
        Inr x \<Rightarrow> (Returned x, snd (f w), [ev])
      | Inl e \<Rightarrow> (Threw e, snd (f w), [ev]))"
  by (auto simp: call_def split: prod.splits sum.splits)

lemma run_start [simp]: "start ev f w = (Returned (), snd (f w), [ev])"
  by (simp add: start_def)

lemma seq_start [simp]: "seq (start ev f) k w = emit [ev] (k (snd (f w)))"
  by (simp add: seq_run)

lemma seq_console_log [simp]: "seq (console_log msg) k w = emit [ConsoleLog msg] (k w)"
  by (simp add: seq_run)

lemma seq_return [simp]: "seq (return x) k w = k w"
  by (simp add: seq_run emit_def)

lemma await_return [simp]: "await (return x) k w = k x w"
  by (simp add: await_run emit_def)

lemma await_call:
  "await (call ev f) k w =
     (case fst (f w) of
        Inr x \<Rightarrow> emit [ev] (k x (snd (f w)))
      | Inl e \<Rightarrow> (Threw e, snd (f w), [ev]))"
  by (auto simp: await_run run_call split: sum.splits)

lemma seq_call:
  "seq (call ev f) k w =
     (case fst (f w) of
        Inr x \<Rightarrow> emit [ev] (k (snd (f w)))
      | Inl e \<Rightarrow> (Threw e, snd (f w), [ev]))"
  by (simp add: seq_def await_call)

lemma tryCatch_seq_console_log [simp]:
  "tryCatch (seq (console_log msg) k) h w = emit [ConsoleLog msg] (tryCatch k h w)"
  by (simp add: tryCatch_run split: outcome.splits)

lemma tryCatch_seq_call:
  "tryCatch (seq (call ev f) k) h w =
     (case fst (f w) of
        Inr x \<Rightarrow> emit [ev] (tryCatch k h (snd (f w)))
      | Inl e \<Rightarrow> emit [ev] (h e (snd (f w))))"
  by (simp add: tryCatch_run seq_call split: outcome.splits sum.splits)

lemma tryCatch_await_call:
  "tryCatch (await (call ev f) k) h w =
     (case fst (f w) of
        Inr x \<Rightarrow> emit [ev] (tryCatch (k x) h (snd (f w)))
      | Inl e \<Rightarrow> emit [ev] (h e (snd (f w))))"
  by (simp add: tryCatch_run await_call split: outcome.splits sum.splits)

lemma tryCatch_call:
  "tryCatch (call ev f) h w =
     (case fst (f w) of
        Inr x \<Rightarrow> (Returned x, snd (f w), [ev])
      | Inl e \<Rightarrow> emit [ev] (h e (snd (f w))))"
  by (simp add: tryCatch_run run_call split: outcome.splits sum.splits)

lemma tryCatch_start [simp]: "tryCatch (start ev f) h w = (Returned (), snd (f w), [ev])"
  by (simp add: tryCatch_run)

lemma tryCatch_seq_start [simp]:
  "tryCatch (seq (start ev f) k) h w = emit [ev] (tryCatch k h (snd (f w)))"
  by (simp add: tryCatch_run split: outcome.splits)

lemma tryCatch_return [simp]: "tryCatch (return x) h w = (Returned x, w, [])"
  by (simp add: tryCatch_run)

lemmas call_defs = fs_emptyDir_def fs_copy_def fs_writeJSON_def fs_writeFile_def fs_ensureDir_def
  fs_ensureSymlink_def fs_move_def fs_remove_def fs_promises_mkdir_def getSourcePlugins_def
  getPluginSourceFolders_def getAppWatchFolders_def getWatchFolders_def runBuild_def
  require_electron_version_def Metro_loadConfig_def Metro_runBuild_def stripSourceMapComment_def

lemmas run_simps = call_defs seq_call await_call run_call tryCatch_seq_call tryCatch_await_call tryCatch_call

lemma generate_run:
  "prefix (events_of (generateDefaultPluginEntryPoints sys G L w)) (generate_calls G L)"
  "outcome_of (generateDefaultPluginEntryPoints sys G L w) = Returned () \<Longrightarrow>
     events_of (generateDefaultPluginEntryPoints sys G L w) = generate_calls G L"
  "outcome_of (generateDefaultPluginEntryPoints sys G L w) \<noteq> Exited n"
  unfolding generateDefaultPluginEntryPoints_def generate_calls_def
  by (simp_all add: run_simps split: sum.splits)

lemma built_append [simp]: "built (xs @ ys) = built xs @ built ys"
  by (induction xs rule: built.induct) simp_all

lemma linked_append [simp]: "linked (xs @ ys) = linked xs @ linked ys"
  by (induction xs rule: linked.induct) simp_all

lemma failures_append [simp]: "failures (xs @ ys) = failures xs @ failures ys"
  by (induction xs rule: failures.induct) simp_all

lemma manifests_append [simp]: "manifests (xs @ ys) = manifests xs @ manifests ys"
  by (induction xs rule: manifests.induct) simp_all

lemma loaders_append [simp]: "loaders (xs @ ys) = loaders xs @ loaders ys"
  by (induction xs rule: loaders.induct) simp_all

lemma metro_calls_append [simp]: "metro_calls (xs @ ys) = metro_calls xs @ metro_calls ys"
  by (induction xs rule: metro_calls.induct) simp_all

lemma bundling_append [simp]: "bundling (xs @ ys) = bundling xs @ bundling ys"
  by (induction xs rule: bundling.induct) simp_all

lemma seq_if: "seq (if c then a else b) k = (if c then seq a k else seq b k)"
  by simp

lemma seq_assoc: "seq (seq a b) c = seq a (seq b c)"
  by (rule ext) (auto simp: seq_def await_def split: prod.splits outcome.splits)

lemma tryCatch_if: "tryCatch (if c then a else b) h = (if c then tryCatch a h else tryCatch b h)"
  by simp

lemma seq_return_fun: "seq (return x) k = k"
  by (rule ext) simp

lemma body_run:
  "outcome_of (buildDefaultPlugins_body sys G E p w) = Returned ()"
  "built (events_of (buildDefaultPlugins_body sys G E p w)) =
     (if truthy (FLIPPER_NO_REBUILD_PLUGINS E) then [] else [dir p])"
  "subseq (linked (events_of (buildDefaultPlugins_body sys G E p w)))
     [(dir p, path_join [defaultPluginsDir G, name p])]"
  "truthy (FLIPPER_NO_REBUILD_PLUGINS E) \<Longrightarrow>
     linked (events_of (buildDefaultPlugins_body sys G E p w)) =
       [(dir p, path_join [defaultPluginsDir G, name p])]"
  "subseq (map fst (failures (events_of (buildDefaultPlugins_body sys G E p w))))
     [''Failed to build plugin '' @ id' p]"
  "1 \<le> length (linked (events_of (buildDefaultPlugins_body sys G E p w)))
        + length (failures (events_of (buildDefaultPlugins_body sys G E p w)))"
  "manifests (events_of (buildDefaultPlugins_body sys G E p w)) = []"
  "loaders (events_of (buildDefaultPlugins_body sys G E p w)) = []"
  unfolding buildDefaultPlugins_body_def
  by (simp_all add: seq_if seq_assoc tryCatch_if seq_return_fun run_simps split: sum.splits)


lemma forOf_Cons_run:
  "forOf (p # ps) (buildDefaultPlugins_body sys G E) w =
     emit (events_of (buildDefaultPlugins_body sys G E p w))
       (forOf ps (buildDefaultPlugins_body sys G E) (world_of (buildDefaultPlugins_body sys G E p w)))"
  by (simp add: seq_run body_run(1))

lemma loop_run:
  "outcome_of (forOf L (buildDefaultPlugins_body sys G E) w) = Returned ()
   \<and> built (events_of (forOf L (buildDefaultPlugins_body sys G E) w)) =
       (if truthy (FLIPPER_NO_REBUILD_PLUGINS E) then [] else map dir L)
   \<and> subseq (linked (events_of (forOf L (buildDefaultPlugins_body sys G E) w)))
       (map (\<lambda>p. (dir p, path_join [defaultPluginsDir G, name p])) L)
   \<and> (truthy (FLIPPER_NO_REBUILD_PLUGINS E) \<longrightarrow>
        linked (events_of (forOf L (buildDefaultPlugins_body sys G E) w)) =
          map (\<lambda>p. (dir p, path_join [defaultPluginsDir G, name p])) L)
   \<and> subseq (map fst (failures (events_of (forOf L (buildDefaultPlugins_body sys G E) w))))
       (map (\<lambda>p. ''Failed to build plugin '' @ id' p) L)
   \<and> length L \<le> length (linked (events_of (forOf L (buildDefaultPlugins_body sys G E) w)))
        + length (failures (events_of (forOf L (buildDefaultPlugins_body sys G E) w)))
   \<and> manifests (events_of (forOf L (buildDefaultPlugins_body sys G E) w)) = []
   \<and> loaders (events_of (forOf L (buildDefaultPlugins_body sys G E) w)) = []"
proof (induction L arbitrary: w)
  case Nil
  show ?case by simp
next
  case (Cons p ps)
  let ?b = "buildDefaultPlugins_body sys G E p w"
  let ?r = "forOf ps (buildDefaultPlugins_body sys G E) (world_of ?b)"
  note ih = Cons.IH [where w="world_of ?b"]
  note b = body_run [where sys=sys and G=G and E=E and p=p and w=w]
  have run: "forOf (p # ps) (buildDefaultPlugins_body sys G E) w = emit (events_of ?b) ?r"
    by (rule forOf_Cons_run)
  have 1: "outcome_of (emit (events_of ?b) ?r) = Returned ()"
    using ih by simp
  have 2: "built (events_of (emit (events_of ?b) ?r)) =
      (if truthy (FLIPPER_NO_REBUILD_PLUGINS E) then [] else map dir (p # ps))"
    using ih b(2) by simp
  have 3: "subseq (linked (events_of (emit (events_of ?b) ?r)))
      (map (\<lambda>p. (dir p, path_join [defaultPluginsDir G, name p])) (p # ps))"
    using list_emb_append_mono [OF b(3) conjunct1 [OF conjunct2 [OF conjunct2 [OF ih]]]]
    by simp
  have 4: "truthy (FLIPPER_NO_REBUILD_PLUGINS E) \<longrightarrow>
      linked (events_of (emit (events_of ?b) ?r)) =
        map (\<lambda>p. (dir p, path_join [defaultPluginsDir G, name p])) (p # ps)"
    using ih b(4) by simp
  have ihf: "subseq (map fst (failures (events_of ?r)))
      (map (\<lambda>p. ''Failed to build plugin '' @ id' p) ps)"
    using ih by simp
  have 5: "subseq (map fst (failures (events_of (emit (events_of ?b) ?r))))
      (map (\<lambda>p. ''Failed to build plugin '' @ id' p) (p # ps))"
    using list_emb_append_mono [OF b(5) ihf] by simp
  have 6: "length (p # ps) \<le> length (linked (events_of (emit (events_of ?b) ?r)))
      + length (failures (events_of (emit (events_of ?b) ?r)))"
    using ih b(6) by simp
  have 7: "manifests (events_of (emit (events_of ?b) ?r)) = []"
    using ih b(7) by simp
  have 8: "loaders (events_of (emit (events_of ?b) ?r)) = []"
    using ih b(8) by simp
  show ?case
    unfolding run using 1 2 3 4 5 6 7 8 by blast
qed

lemma buildDefaultPlugins_run:
  \<open>buildDefaultPlugins sys G E L w =
     emit (if truthy (FLIPPER_NO_REBUILD_PLUGINS E)
           then [ConsoleLog (''Including '' @ show_nat (length L)
                 @ '' plugins into the default plugins list. Skipping rebuilding because "no-rebuild-plugins" option provided. List of default plugins: ''
                 @ join '', '' (map id' L))]
           else [])
       (forOf L (buildDefaultPlugins_body sys G E) w)\<close>
  unfolding buildDefaultPlugins_def by (simp add: emit_def)

section \<open>Facts about the file system\<close>

lemma mkdirp_keeps: "mkdirp fs d = Inr fs' \<Longrightarrow> fs q \<noteq> None \<Longrightarrow> fs' q = fs q"
  by (auto simp: mkdirp_def split: if_splits)

lemma mkdirp_chain: "mkdirp fs d = Inr fs' \<Longrightarrow> q \<in> set (chain d) \<Longrightarrow> fs' q = Some Directory"
  by (auto simp: mkdirp_def list_ex_iff split: if_splits)

lemma mkdirp_elsewhere: "mkdirp fs d = Inr fs' \<Longrightarrow> q \<notin> set (chain d) \<Longrightarrow> fs' q = fs q"
  by (auto simp: mkdirp_def split: if_splits)

lemma fs_extra_simps [simp]:
  "sys_ensureDir (fs_extra pkgs) = ensureDir_fs"
  "sys_move (fs_extra pkgs) = move_fs"
  "sys_remove (fs_extra pkgs) = remove_fs"
  "sys_writeJSON (fs_extra pkgs) = (\<lambda>p v. write_fs p (Json v))"
  "sys_writeFile (fs_extra pkgs) = (\<lambda>p c. write_fs p (Text c))"
  by (simp_all add: fs_extra_def)

lemma write_fs_Returned:
  "fst (write_fs p c fs) = Inr () \<Longrightarrow> snd (write_fs p c fs) = fs(p \<mapsto> File c)"
  by (auto simp: write_fs_def split: if_splits)

lemma ensureDir_fs_keeps:
  "fst (ensureDir_fs d fs) = Inr () \<Longrightarrow> fs q \<noteq> None \<Longrightarrow> snd (ensureDir_fs d fs) q = fs q"
  by (auto simp: ensureDir_fs_def mkdirp_keeps split: sum.splits)

lemma last_manifest_path: "last (path_join [d, ''bundled.json'']) = CHR ''n''"
  by (simp add: path_join_def)

lemma last_index_path: "last (path_join [a, ''src'', ''defaultPlugins'', ''index.tsx'']) = CHR ''x''"
  by (simp add: path_join_def)

lemma manifest_neq_index:
  "path_join [d, ''bundled.json''] \<noteq> path_join [a, ''src'', ''defaultPlugins'', ''index.tsx'']"
proof
  assume "path_join [d, ''bundled.json''] = path_join [a, ''src'', ''defaultPlugins'', ''index.tsx'']"
  then have "last (path_join [d, ''bundled.json'']) = last (path_join [a, ''src'', ''defaultPlugins'', ''index.tsx''])"
    by simp
  then show False by (simp add: last_manifest_path last_index_path)
qed

section \<open>Facts about the generator and the batch\<close>

lemma seq_await: "seq (await m f) k = await m (\<lambda>x. seq (f x) k)"
  by (rule ext) (auto simp: seq_def await_def split: prod.splits outcome.splits)

lemma bundledPlugins_Nil [simp]: "bundledPlugins v [] = []"
  by (simp add: bundledPlugins_def)

lemma pluginRequres_Nil [simp]: "pluginRequres [] = []"
  by (simp add: pluginRequres_def)

lemma length_bundledPlugins [simp]: "length (bundledPlugins v L) = length L"
  by (simp add: bundledPlugins_def)

lemma show_nat_0 [simp]: "show_nat 0 = ''0''"
  by code_simp

lemma generate_calls_Nil:
  "generate_calls G [] =
     [ConsoleLog ''Generating entry points for 0 bundled plugins...'',
      WriteJSON (path_join [defaultPluginsDir G, ''bundled.json'']) [],
      EnsureDir (path_join [appDir G, ''src'', ''defaultPlugins'']),
      WriteFile (path_join [appDir G, ''src'', ''defaultPlugins'', ''index.tsx'']) (generatedIndex []),
      EnsureDir (path_join [browserUiDir G, ''src'', ''defaultPlugins'']),
      WriteFile (path_join [browserUiDir G, ''src'', ''defaultPlugins'', ''index.tsx'']) (generatedIndex []),
      ConsoleLog ''Generated bundled plugin entry points.'']"
  by (simp add: generate_calls_def)

lemma generate_observed:
  "manifests (events_of (generateDefaultPluginEntryPoints sys G L w)) =
     [(path_join [defaultPluginsDir G, ''bundled.json''], bundledPlugins (version_pkg G) L)]"
  "set (loaders (events_of (generateDefaultPluginEntryPoints sys G L w))) \<subseteq>
     {(path_join [appDir G, ''src'', ''defaultPlugins'', ''index.tsx''],
       generatedIndex (pluginRequres (bundledPlugins (version_pkg G) L))),
      (path_join [browserUiDir G, ''src'', ''defaultPlugins'', ''index.tsx''],
       generatedIndex (pluginRequres (bundledPlugins (version_pkg G) L)))}"
  "built (events_of (generateDefaultPluginEntryPoints sys G L w)) = []"
  "linked (events_of (generateDefaultPluginEntryPoints sys G L w)) = []"
  "GetSourcePlugins \<notin> set (events_of (generateDefaultPluginEntryPoints sys G L w))"
  unfolding generateDefaultPluginEntryPoints_def
  by (simp_all add: run_simps split: sum.splits)

lemma generate_Returned:
  assumes "outcome_of (generateDefaultPluginEntryPoints sys G L w) = Returned ()"
  shows "loaders (events_of (generateDefaultPluginEntryPoints sys G L w)) =
     [(path_join [appDir G, ''src'', ''defaultPlugins'', ''index.tsx''],
       generatedIndex (pluginRequres (bundledPlugins (version_pkg G) L))),
      (path_join [browserUiDir G, ''src'', ''defaultPlugins'', ''index.tsx''],
       generatedIndex (pluginRequres (bundledPlugins (version_pkg G) L)))]"
  using generate_run(2) [OF assms] by (simp add: generate_calls_def)

lemma pluginRequres_bundled:
  "pluginRequres (bundledPlugins v L) =
     join ('','' @ nl)
       (map (\<lambda>p. ''  '' @ quote @ name p @ quote @ '': tryRequire('' @ quote @ name p @ quote
                 @ '', () => require('' @ quote @ name p @ quote @ ''))'') L)"
  by (simp add: pluginRequres_def bundledPlugins_def requireLine_def comp_def)

lemma seq_then_log:
  "seq m (console_log msg) w =
     (case outcome_of (m w) of
        Returned x \<Rightarrow> (Returned (), world_of (m w), events_of (m w) @ [ConsoleLog msg])
      | Threw e \<Rightarrow> (Threw e, world_of (m w), events_of (m w))
      | Exited n \<Rightarrow> (Exited n, world_of (m w), events_of (m w)))"
  by (simp add: seq_run split: outcome.splits)

lemma generate_then_log:
  "prefix (events_of (seq (generateDefaultPluginEntryPoints sys G L) (console_log msg) w))
     (generate_calls G L @ [ConsoleLog msg])"
  "outcome_of (seq (generateDefaultPluginEntryPoints sys G L) (console_log msg) w) = Returned () \<Longrightarrow>
     events_of (seq (generateDefaultPluginEntryPoints sys G L) (console_log msg) w) =
       generate_calls G L @ [ConsoleLog msg]"
  "manifests (events_of (seq (generateDefaultPluginEntryPoints sys G L) (console_log msg) w)) =
     [(path_join [defaultPluginsDir G, ''bundled.json''], bundledPlugins (version_pkg G) L)]"
  "set (loaders (events_of (seq (generateDefaultPluginEntryPoints sys G L) (console_log msg) w))) \<subseteq>
     {(path_join [appDir G, ''src'', ''defaultPlugins'', ''index.tsx''],
       generatedIndex (pluginRequres (bundledPlugins (version_pkg G) L))),
      (path_join [browserUiDir G, ''src'', ''defaultPlugins'', ''index.tsx''],
       generatedIndex (pluginRequres (bundledPlugins (version_pkg G) L)))}"
  "built (events_of (seq (generateDefaultPluginEntryPoints sys G L) (console_log msg) w)) = []"
  "linked (events_of (seq (generateDefaultPluginEntryPoints sys G L) (console_log msg) w)) = []"
  "GetSourcePlugins \<notin> set (events_of (seq (generateDefaultPluginEntryPoints sys G L) (console_log msg) w))"
  using generate_run [where sys=sys and G=G and L=L and w=w]
    generate_observed [where sys=sys and G=G and L=L and w=w]
  by (auto simp: seq_then_log split: outcome.splits)

lemma await_if: "await (if c then a else b) k = (if c then await a k else await b k)"
  by simp

lemma build_observed:
  "outcome_of (buildDefaultPlugins sys G E L w) = Returned ()"
  "manifests (events_of (buildDefaultPlugins sys G E L w)) = []"
  "loaders (events_of (buildDefaultPlugins sys G E L w)) = []"
  "built (events_of (buildDefaultPlugins sys G E L w)) =
     (if truthy (FLIPPER_NO_REBUILD_PLUGINS E) then [] else map dir L)"
  "truthy (FLIPPER_NO_REBUILD_PLUGINS E) \<Longrightarrow>
     linked (events_of (buildDefaultPlugins sys G E L w)) =
       map (\<lambda>p. (dir p, path_join [defaultPluginsDir G, name p])) L"
  using loop_run [where L=L and sys=sys and G=G and E=E and w=w]
  by (simp_all add: buildDefaultPlugins_run)

lemma seq_buildDefaultPlugins:
  "seq (buildDefaultPlugins sys G E L) k w =
     emit (events_of (buildDefaultPlugins sys G E L w)) (k (world_of (buildDefaultPlugins sys G E L w)))"
  by (simp add: seq_run build_observed(1))

lemma generate_persists:
  assumes "outcome_of (generateDefaultPluginEntryPoints (fs_extra pkgs) G L fs) = Returned ()"
  shows "world_of (generateDefaultPluginEntryPoints (fs_extra pkgs) G L fs)
           (path_join [defaultPluginsDir G, ''bundled.json'']) =
         Some (File (Json (bundledPlugins (version_pkg G) L)))"
    and "world_of (generateDefaultPluginEntryPoints (fs_extra pkgs) G L fs)
           (path_join [appDir G, ''src'', ''defaultPlugins'', ''index.tsx'']) =
         Some (File (Text (generatedIndex (pluginRequres (bundledPlugins (version_pkg G) L)))))"
    and "world_of (generateDefaultPluginEntryPoints (fs_extra pkgs) G L fs)
           (path_join [browserUiDir G, ''src'', ''defaultPlugins'', ''index.tsx'']) =
         Some (File (Text (generatedIndex (pluginRequres (bundledPlugins (version_pkg G) L)))))"
  using assms unfolding generateDefaultPluginEntryPoints_def
  by (auto simp: run_simps write_fs_Returned ensureDir_fs_keeps manifest_neq_index split: sum.splits)

lemma seq_then_log_world:
  "outcome_of (seq m (console_log msg) w) = Returned () \<Longrightarrow>
     (\<exists>x. outcome_of (m w) = Returned x) \<and> world_of (seq m (console_log msg) w) = world_of (m w)"
  by (auto simp: seq_then_log split: outcome.splits)

lemma generate_tail:
  assumes "outcome_of (seq (generateDefaultPluginEntryPoints sys G [])
        (console_log ''Prepared default plugins.'') w') = Returned ()"
  shows "\<exists>w''. outcome_of (generateDefaultPluginEntryPoints sys G [] w'') = Returned ()
           \<and> world_of (seq (generateDefaultPluginEntryPoints sys G [])
                 (console_log ''Prepared default plugins.'') w') =
               world_of (generateDefaultPluginEntryPoints sys G [] w'')"
proof (intro exI conjI)
  from seq_then_log_world [OF assms]
  show "outcome_of (generateDefaultPluginEntryPoints sys G [] w') = Returned ()" by simp
  from seq_then_log_world [OF assms]
  show "world_of (seq (generateDefaultPluginEntryPoints sys G [])
                 (console_log ''Prepared default plugins.'') w') =
               world_of (generateDefaultPluginEntryPoints sys G [] w')" by simp
qed

lemma prepare_ends_with_generate:
  assumes "truthy (FLIPPER_DEFAULT_PLUGINS_DIR E) \<or> truthy (FLIPPER_NO_BUNDLED_PLUGINS E)"
    and "outcome_of (prepareDefaultPlugins sys G E b w) = Returned ()"
  shows "\<exists>w'. outcome_of (generateDefaultPluginEntryPoints sys G [] w') = Returned ()
           \<and> world_of (prepareDefaultPlugins sys G E b w) =
               world_of (generateDefaultPluginEntryPoints sys G [] w')"
  using assms unfolding prepareDefaultPlugins_def
  by (simp add: Let_def seq_await seq_assoc await_if getSourcePlugins_def fs_emptyDir_def fs_copy_def
        seq_call await_call seq_buildDefaultPlugins generate_tail split: sum.splits if_splits)

lemma generatedIndex_exports:
  "suffix (''  export default {'' @ nl @ r @ nl @ ''} as any'' @ nl @ ''  '') (generatedIndex r)"
  unfolding generatedIndex_def
  by (rule suffix_order.refl | rule suffix_appendI)+

lemma batch_single:
  "failures (events_of (buildDefaultPlugins sys G E [p] w)) =
     failures (events_of (buildDefaultPlugins_body sys G E p w))"
  "linked (events_of (buildDefaultPlugins sys G E [p] w)) =
     linked (events_of (buildDefaultPlugins_body sys G E p w))"
  "world_of (buildDefaultPlugins sys G E [p] w) = world_of (buildDefaultPlugins_body sys G E p w)"
  by (simp_all add: buildDefaultPlugins_run seq_run body_run(1))

lemma batch_Cons:
  "failures (events_of (buildDefaultPlugins sys G E (p # ps) w)) =
     failures (events_of (buildDefaultPlugins sys G E [p] w))
     @ failures (events_of (buildDefaultPlugins sys G E ps (world_of (buildDefaultPlugins sys G E [p] w))))"
  "linked (events_of (buildDefaultPlugins sys G E (p # ps) w)) =
     linked (events_of (buildDefaultPlugins sys G E [p] w))
     @ linked (events_of (buildDefaultPlugins sys G E ps (world_of (buildDefaultPlugins sys G E [p] w))))"
  unfolding batch_single
  by (simp_all add: buildDefaultPlugins_run forOf_Cons_run del: forOf.simps)

lemma batch_one:
  "(\<not> truthy (FLIPPER_NO_REBUILD_PLUGINS E)
           \<and> sys_runBuild sys (dir p) (dev E) w' = (Inl e, w1)
         \<longrightarrow> failures (events_of (buildDefaultPlugins sys G E [p] w')) =
               [(''Failed to build plugin '' @ id' p, e)]
             \<and> linked (events_of (buildDefaultPlugins sys G E [p] w')) = [])
        \<and> (\<not> truthy (FLIPPER_NO_REBUILD_PLUGINS E)
           \<and> sys_runBuild sys (dir p) (dev E) w' = (Inr (), w1)
           \<and> sys_ensureSymlink sys (dir p) (path_join [defaultPluginsDir G, name p]) w1 = (Inl e, w2)
         \<longrightarrow> failures (events_of (buildDefaultPlugins sys G E [p] w')) =
               [(''Failed to build plugin '' @ id' p, e)])
        \<and> (\<not> truthy (FLIPPER_NO_REBUILD_PLUGINS E)
           \<and> sys_runBuild sys (dir p) (dev E) w' = (Inr (), w1)
           \<and> sys_ensureSymlink sys (dir p) (path_join [defaultPluginsDir G, name p]) w1 = (Inr (), w2)
         \<longrightarrow> failures (events_of (buildDefaultPlugins sys G E [p] w')) = [])
        \<and> (truthy (FLIPPER_NO_REBUILD_PLUGINS E)
           \<and> sys_ensureSymlink sys (dir p) (path_join [defaultPluginsDir G, name p]) w' = (Inl e, w2)
         \<longrightarrow> failures (events_of (buildDefaultPlugins sys G E [p] w')) =
               [(''Failed to build plugin '' @ id' p, e)])
        \<and> (truthy (FLIPPER_NO_REBUILD_PLUGINS E)
           \<and> sys_ensureSymlink sys (dir p) (path_join [defaultPluginsDir G, name p]) w' = (Inr (), w2)
         \<longrightarrow> failures (events_of (buildDefaultPlugins sys G E [p] w')) = [])"
  unfolding batch_single buildDefaultPlugins_body_def
  by (simp add: seq_if seq_assoc tryCatch_if seq_return_fun run_simps)

lemma batch_step:
  "failures (events_of (buildDefaultPlugins sys G E (p # ps) w')) =
          failures (events_of (buildDefaultPlugins sys G E [p] w'))
          @ failures (events_of (buildDefaultPlugins sys G E ps
                (world_of (buildDefaultPlugins sys G E [p] w'))))
        \<and> linked (events_of (buildDefaultPlugins sys G E (p # ps) w')) =
          linked (events_of (buildDefaultPlugins sys G E [p] w'))
          @ linked (events_of (buildDefaultPlugins sys G E ps
                (world_of (buildDefaultPlugins sys G E [p] w'))))"
  by (rule conjI) (rule batch_Cons)+

section \<open>Building and linking the default plugins\<close>

text \<open>
  Claim C5. \<^verbatim>\<open>buildDefaultPlugins\<close> never throws and never ends the process, whatever
  \<^verbatim>\<open>runBuild\<close> and \<^verbatim>\<open>ensureSymlink\<close> do: it returns. Every plugin of the list is
  attempted, in the order of the list: when plugins are rebuilt, the directories handed
  to \<^verbatim>\<open>runBuild\<close> are the directories of the whole list; when rebuilding is skipped,
  nothing is built and a link is asked for every plugin. The links asked for are links
  of plugins of the list, in order; the errors written to the console are
  \<^verbatim>\<open>Failed to build plugin <id>\<close> for plugins of the list, in order, at most one for a
  plugin; and every plugin was either linked or reported. Plugin by plugin: what is
  logged for a batch is what is logged for its first plugin alone, then what is logged for
  the rest in the world the first plugin left; and for one plugin, an error thrown by
  \<^verbatim>\<open>runBuild\<close> or by \<^verbatim>\<open>ensureSymlink\<close> is logged once, with that error, under the id of the
  plugin, a failed build asks for no link, and nothing is logged when neither throws.
\<close>

theorem buildDefaultPlugins_isolates_failures:
  "outcome_of (buildDefaultPlugins sys G E L w) = Returned ()
   \<and> (\<not> truthy (FLIPPER_NO_REBUILD_PLUGINS E) \<longrightarrow>
        built (events_of (buildDefaultPlugins sys G E L w)) = map dir L)
   \<and> (truthy (FLIPPER_NO_REBUILD_PLUGINS E) \<longrightarrow>
        built (events_of (buildDefaultPlugins sys G E L w)) = []
        \<and> linked (events_of (buildDefaultPlugins sys G E L w)) =
            map (\<lambda>p. (dir p, path_join [defaultPluginsDir G, name p])) L)
   \<and> subseq (linked (events_of (buildDefaultPlugins sys G E L w)))
        (map (\<lambda>p. (dir p, path_join [defaultPluginsDir G, name p])) L)
   \<and> subseq (map fst (failures (events_of (buildDefaultPlugins sys G E L w))))
        (map (\<lambda>p. ''Failed to build plugin '' @ id' p) L)
   \<and> length L \<le> length (linked (events_of (buildDefaultPlugins sys G E L w)))
        + length (failures (events_of (buildDefaultPlugins sys G E L w)))
   \<and> (\<forall>p ps w'.
        failures (events_of (buildDefaultPlugins sys G E (p # ps) w')) =
          failures (events_of (buildDefaultPlugins sys G E [p] w'))
          @ failures (events_of (buildDefaultPlugins sys G E ps
                (world_of (buildDefaultPlugins sys G E [p] w'))))
        \<and> linked (events_of (buildDefaultPlugins sys G E (p # ps) w')) =
          linked (events_of (buildDefaultPlugins sys G E [p] w'))
          @ linked (events_of (buildDefaultPlugins sys G E ps
                (world_of (buildDefaultPlugins sys G E [p] w')))))
   \<and> (\<forall>p w' w1 w2 e.
        (\<not> truthy (FLIPPER_NO_REBUILD_PLUGINS E)
           \<and> sys_runBuild sys (dir p) (dev E) w' = (Inl e, w1)
         \<longrightarrow> failures (events_of (buildDefaultPlugins sys G E [p] w')) =
               [(''Failed to build plugin '' @ id' p, e)]
             \<and> linked (events_of (buildDefaultPlugins sys G E [p] w')) = [])
        \<and> (\<not> truthy (FLIPPER_NO_REBUILD_PLUGINS E)
           \<and> sys_runBuild sys (dir p) (dev E) w' = (Inr (), w1)
           \<and> sys_ensureSymlink sys (dir p) (path_join [defaultPluginsDir G, name p]) w1 = (Inl e, w2)
         \<longrightarrow> failures (events_of (buildDefaultPlugins sys G E [p] w')) =
               [(''Failed to build plugin '' @ id' p, e)])
        \<and> (\<not> truthy (FLIPPER_NO_REBUILD_PLUGINS E)
           \<and> sys_runBuild sys (dir p) (dev E) w' = (Inr (), w1)
           \<and> sys_ensureSymlink sys (dir p) (path_join [defaultPluginsDir G, name p]) w1 = (Inr (), w2)
         \<longrightarrow> failures (events_of (buildDefaultPlugins sys G E [p] w')) = [])
        \<and> (truthy (FLIPPER_NO_REBUILD_PLUGINS E)
           \<and> sys_ensureSymlink sys (dir p) (path_join [defaultPluginsDir G, name p]) w' = (Inl e, w2)
         \<longrightarrow> failures (events_of (buildDefaultPlugins sys G E [p] w')) =
               [(''Failed to build plugin '' @ id' p, e)])
        \<and> (truthy (FLIPPER_NO_REBUILD_PLUGINS E)
           \<and> sys_ensureSymlink sys (dir p) (path_join [defaultPluginsDir G, name p]) w' = (Inr (), w2)
         \<longrightarrow> failures (events_of (buildDefaultPlugins sys G E [p] w')) = []))"
proof -
  have batch: "outcome_of (buildDefaultPlugins sys G E L w) = Returned ()
   \<and> (\<not> truthy (FLIPPER_NO_REBUILD_PLUGINS E) \<longrightarrow>
        built (events_of (buildDefaultPlugins sys G E L w)) = map dir L)
   \<and> (truthy (FLIPPER_NO_REBUILD_PLUGINS E) \<longrightarrow>
        built (events_of (buildDefaultPlugins sys G E L w)) = []
        \<and> linked (events_of (buildDefaultPlugins sys G E L w)) =
            map (\<lambda>p. (dir p, path_join [defaultPluginsDir G, name p])) L)
   \<and> subseq (linked (events_of (buildDefaultPlugins sys G E L w)))
        (map (\<lambda>p. (dir p, path_join [defaultPluginsDir G, name p])) L)
   \<and> subseq (map fst (failures (events_of (buildDefaultPlugins sys G E L w))))
        (map (\<lambda>p. ''Failed to build plugin '' @ id' p) L)
   \<and> length L \<le> length (linked (events_of (buildDefaultPlugins sys G E L w)))
        + length (failures (events_of (buildDefaultPlugins sys G E L w)))"
    using loop_run [where L=L and sys=sys and G=G and E=E and w=w]
    by (simp add: buildDefaultPlugins_run)
  have step: "\<forall>p ps w'.
        failures (events_of (buildDefaultPlugins sys G E (p # ps) w')) =
          failures (events_of (buildDefaultPlugins sys G E [p] w'))
          @ failures (events_of (buildDefaultPlugins sys G E ps
                (world_of (buildDefaultPlugins sys G E [p] w'))))
        \<and> linked (events_of (buildDefaultPlugins sys G E (p # ps) w')) =
          linked (events_of (buildDefaultPlugins sys G E [p] w'))
          @ linked (events_of (buildDefaultPlugins sys G E ps
                (world_of (buildDefaultPlugins sys G E [p] w'))))"
    by (intro allI) (rule batch_step)
  have one: "\<forall>p w' w1 w2 e.
        (\<not> truthy (FLIPPER_NO_REBUILD_PLUGINS E)
           \<and> sys_runBuild sys (dir p) (dev E) w' = (Inl e, w1)
         \<longrightarrow> failures (events_of (buildDefaultPlugins sys G E [p] w')) =
               [(''Failed to build plugin '' @ id' p, e)]
             \<and> linked (events_of (buildDefaultPlugins sys G E [p] w')) = [])
        \<and> (\<not> truthy (FLIPPER_NO_REBUILD_PLUGINS E)
           \<and> sys_runBuild sys (dir p) (dev E) w' = (Inr (), w1)
           \<and> sys_ensureSymlink sys (dir p) (path_join [defaultPluginsDir G, name p]) w1 = (Inl e, w2)
         \<longrightarrow> failures (events_of (buildDefaultPlugins sys G E [p] w')) =
               [(''Failed to build plugin '' @ id' p, e)])
        \<and> (\<not> truthy (FLIPPER_NO_REBUILD_PLUGINS E)
           \<and> sys_runBuild sys (dir p) (dev E) w' = (Inr (), w1)
           \<and> sys_ensureSymlink sys (dir p) (path_join [defaultPluginsDir G, name p]) w1 = (Inr (), w2)
         \<longrightarrow> failures (events_of (buildDefaultPlugins sys G E [p] w')) = [])
        \<and> (truthy (FLIPPER_NO_REBUILD_PLUGINS E)
           \<and> sys_ensureSymlink sys (dir p) (path_join [defaultPluginsDir G, name p]) w' = (Inl e, w2)
         \<longrightarrow> failures (events_of (buildDefaultPlugins sys G E [p] w')) =
               [(''Failed to build plugin '' @ id' p, e)])
        \<and> (truthy (FLIPPER_NO_REBUILD_PLUGINS E)
           \<and> sys_ensureSymlink sys (dir p) (path_join [defaultPluginsDir G, name p]) w' = (Inr (), w2)
         \<longrightarrow> failures (events_of (buildDefaultPlugins sys G E [p] w')) = [])"
    by (intro allI) (rule batch_one)
  show ?thesis
    using batch step one
    apply (elim conjE)
    apply (intro conjI)
    apply assumption+
    done
qed

text \<open>
  On the small installation the second plugin fails to build: it is reported, it is not
  linked, and the third plugin is built and linked after it. Alone, that plugin is
  reported with the error of \<^verbatim>\<open>runBuild\<close> and not linked; so is the first plugin on an
  empty file system.
\<close>

theorem buildDefaultPlugins_isolates_failures_witness:
  "\<not> truthy (FLIPPER_NO_REBUILD_PLUGINS demo_E)
   \<and> outcome_of (buildDefaultPlugins demo_sys demo_G demo_E demo_plugins demo_fs) = Returned ()
   \<and> built (events_of (buildDefaultPlugins demo_sys demo_G demo_E demo_plugins demo_fs))
        = map dir demo_plugins
   \<and> linked (events_of (buildDefaultPlugins demo_sys demo_G demo_E demo_plugins demo_fs))
        = [(''/p/net'', ''/r/static/defaultPlugins/net''),
           (''/p/layout'', ''/r/static/defaultPlugins/layout'')]
   \<and> failures (events_of (buildDefaultPlugins demo_sys demo_G demo_E demo_plugins demo_fs))
        = [(''Failed to build plugin Sandbox'', Error ''nothing to build'')]
   \<and> sys_runBuild demo_sys (dir (demo_plugins ! 1)) (dev demo_E) demo_fs
        = (Inl (Error ''nothing to build''), demo_fs)
   \<and> failures (events_of (buildDefaultPlugins demo_sys demo_G demo_E [demo_plugins ! 1] demo_fs))
        = [(''Failed to build plugin Sandbox'', Error ''nothing to build'')]
   \<and> linked (events_of (buildDefaultPlugins demo_sys demo_G demo_E [demo_plugins ! 1] demo_fs)) = []
   \<and> fst (sys_runBuild demo_sys (dir (demo_plugins ! 0)) (dev demo_E) Map.empty)
        = Inl (Error ''nothing to build'')
   \<and> failures (events_of (buildDefaultPlugins demo_sys demo_G demo_E [demo_plugins ! 0] Map.empty))
        = [(''Failed to build plugin Network'', Error ''nothing to build'')]"
proof -
  have h: "\<not> truthy (FLIPPER_NO_REBUILD_PLUGINS demo_E)"
    by code_simp
  note t = buildDefaultPlugins_isolates_failures
    [where sys=demo_sys and G=demo_G and E=demo_E and L=demo_plugins and w=demo_fs]
  have a: "outcome_of (buildDefaultPlugins demo_sys demo_G demo_E demo_plugins demo_fs) = Returned ()"
    by (rule t [THEN conjunct1])
  have b: "built (events_of (buildDefaultPlugins demo_sys demo_G demo_E demo_plugins demo_fs))
        = map dir demo_plugins"
    by (rule t [THEN conjunct2, THEN conjunct1, rule_format, OF h])
  have c: "linked (events_of (buildDefaultPlugins demo_sys demo_G demo_E demo_plugins demo_fs))
        = [(''/p/net'', ''/r/static/defaultPlugins/net''),
           (''/p/layout'', ''/r/static/defaultPlugins/layout'')]"
    by code_simp
  have d: "failures (events_of (buildDefaultPlugins demo_sys demo_G demo_E demo_plugins demo_fs))
        = [(''Failed to build plugin Sandbox'', Error ''nothing to build'')]"
    by code_simp
  note one = t [THEN conjunct2, THEN conjunct2, THEN conjunct2, THEN conjunct2, THEN conjunct2,
      THEN conjunct2, THEN conjunct2]
  have e: "sys_runBuild demo_sys (dir (demo_plugins ! 1)) (dev demo_E) demo_fs
        = (Inl (Error ''nothing to build''), demo_fs)"
    by (simp add: demo_sys_def demo_plugins_def demo_fs_def)
  have f: "failures (events_of (buildDefaultPlugins demo_sys demo_G demo_E [demo_plugins ! 1] demo_fs))
        = [(''Failed to build plugin '' @ id' (demo_plugins ! 1), Error ''nothing to build'')]
     \<and> linked (events_of (buildDefaultPlugins demo_sys demo_G demo_E [demo_plugins ! 1] demo_fs)) = []"
    by (rule one [THEN spec [where x="demo_plugins ! 1"], THEN spec [where x=demo_fs],
          THEN spec [where x=demo_fs], THEN spec [where x=demo_fs],
          THEN spec [where x="Error ''nothing to build''"], THEN conjunct1, rule_format,
          OF conjI [OF h e]])
  have g: "sys_runBuild demo_sys (dir (demo_plugins ! 0)) (dev demo_E) Map.empty
        = (Inl (Error ''nothing to build''), Map.empty)"
    by (simp add: demo_sys_def)
  have i: "failures (events_of (buildDefaultPlugins demo_sys demo_G demo_E [demo_plugins ! 0] Map.empty))
        = [(''Failed to build plugin '' @ id' (demo_plugins ! 0), Error ''nothing to build'')]
     \<and> linked (events_of (buildDefaultPlugins demo_sys demo_G demo_E [demo_plugins ! 0] Map.empty)) = []"
    by (rule one [THEN spec [where x="demo_plugins ! 0"], THEN spec [where x=Map.empty],
          THEN spec [where x=Map.empty], THEN spec [where x=Map.empty],
          THEN spec [where x="Error ''nothing to build''"], THEN conjunct1, rule_format,
          OF conjI [OF h g]])
  have n1: "id' (demo_plugins ! 1) = ''Sandbox''" by (simp add: demo_plugins_def)
  have n0: "id' (demo_plugins ! 0) = ''Network''" by (simp add: demo_plugins_def)
  from h a b c d e f g i show ?thesis
    unfolding n0 n1 by simp
qed

section \<open>The reset of the default-plugins directory\<close>

text \<open>
  Claim C9. Every run of \<^verbatim>\<open>prepareDefaultPlugins\<close>, whatever the environment and the
  flag, starts with its progress line on the console and then calls \<^verbatim>\<open>fs.emptyDir\<close> on
  the default-plugins directory, before any other call; and when that call throws, the
  run ends there with the same error, no branch having been entered.
\<close>

theorem prepareDefaultPlugins_empties_first:
  "(\<exists>rest. events_of (prepareDefaultPlugins sys G E isInsidersBuild w) =
      ConsoleLog (''Preparing default plugins (isInsidersBuild='' @ show_bool isInsidersBuild @ '')...'')
      # EmptyDir (defaultPluginsDir G) # rest)
   \<and> (\<forall>e. fst (sys_emptyDir sys (defaultPluginsDir G) w) = Inl e \<longrightarrow>
        prepareDefaultPlugins sys G E isInsidersBuild w =
          (Threw e, snd (sys_emptyDir sys (defaultPluginsDir G) w),
           [ConsoleLog (''Preparing default plugins (isInsidersBuild='' @ show_bool isInsidersBuild @ '')...''),
            EmptyDir (defaultPluginsDir G)]))"
  unfolding prepareDefaultPlugins_def fs_emptyDir_def
  by (simp add: seq_call split: sum.splits)

text \<open>
  When a file stands where the default-plugins directory should be, \<^verbatim>\<open>emptyDir\<close> fails
  and nothing else is called.
\<close>

theorem prepareDefaultPlugins_empties_first_witness:
  "fst (sys_emptyDir demo_sys (defaultPluginsDir demo_G)
         (demo_fs(''/r/static/defaultPlugins'' \<mapsto> File (Text ''x'')))) = Inl (Error ''ENOTDIR'')
   \<and> outcome_of (prepareDefaultPlugins demo_sys demo_G demo_E False
         (demo_fs(''/r/static/defaultPlugins'' \<mapsto> File (Text ''x'')))) = Threw (Error ''ENOTDIR'')
   \<and> events_of (prepareDefaultPlugins demo_sys demo_G demo_E False
         (demo_fs(''/r/static/defaultPlugins'' \<mapsto> File (Text ''x'')))) =
       [ConsoleLog ''Preparing default plugins (isInsidersBuild=false)...'',
        EmptyDir ''/r/static/defaultPlugins'']"
proof -
  let ?fs = "demo_fs(''/r/static/defaultPlugins'' \<mapsto> File (Text ''x''))"
  have h: "fst (sys_emptyDir demo_sys (defaultPluginsDir demo_G) ?fs) = Inl (Error ''ENOTDIR'')"
    by code_simp
  have "prepareDefaultPlugins demo_sys demo_G demo_E False ?fs =
          (Threw (Error ''ENOTDIR''), snd (sys_emptyDir demo_sys (defaultPluginsDir demo_G) ?fs),
           [ConsoleLog (''Preparing default plugins (isInsidersBuild='' @ show_bool False @ '')...''),
            EmptyDir (defaultPluginsDir demo_G)])"
    using prepareDefaultPlugins_empties_first
      [where sys=demo_sys and G=demo_G and E=demo_E and isInsidersBuild=False and w="?fs"] h
    by blast
  then show ?thesis
    using h by (simp add: show_bool_def demo_G_def)
qed

section \<open>Selecting the plugins of an insiders build\<close>

text \<open>
  Claim C1. With no override directory, run \<^verbatim>\<open>prepareDefaultPlugins(true)\<close> where
  \<^verbatim>\<open>emptyDir\<close> succeeds and \<^verbatim>\<open>getSourcePlugins\<close> returns \<open>sourcePlugins\<close>. The plugins
  selected are the source plugins whose id is in \<open>hardcodedPlugins\<close>, in the order of the
  enumeration, and this is the list the run works on: its manifest when plugins are
  bundled, the directories it builds, or the links it asks for, when they are not.
\<close>

theorem prepareDefaultPlugins_insiders_selection:
  assumes "\<not> truthy (FLIPPER_DEFAULT_PLUGINS_DIR E)"
    and "\<not> truthy (FLIPPER_NO_DEFAULT_PLUGINS E)"
    and "fst (sys_emptyDir sys (defaultPluginsDir G) w) = Inr ()"
    and "fst (sys_getSourcePlugins sys (snd (sys_emptyDir sys (defaultPluginsDir G) w))) = Inr sourcePlugins"
  shows
    "set (map id' (defaultPlugins_of True sourcePlugins)) \<subseteq> hardcodedPlugins
     \<and> subseq (defaultPlugins_of True sourcePlugins) sourcePlugins
     \<and> defaultPlugins_of True sourcePlugins = filter (\<lambda>p. id' p \<in> hardcodedPlugins) sourcePlugins
     \<and> (\<not> truthy (FLIPPER_NO_BUNDLED_PLUGINS E) \<longrightarrow>
          manifests (events_of (prepareDefaultPlugins sys G E True w)) =
            [(path_join [defaultPluginsDir G, ''bundled.json''],
              bundledPlugins (version_pkg G) (defaultPlugins_of True sourcePlugins))])
     \<and> (truthy (FLIPPER_NO_BUNDLED_PLUGINS E) \<and> \<not> truthy (FLIPPER_NO_REBUILD_PLUGINS E) \<longrightarrow>
          built (events_of (prepareDefaultPlugins sys G E True w)) =
            map dir (defaultPlugins_of True sourcePlugins))
     \<and> (truthy (FLIPPER_NO_BUNDLED_PLUGINS E) \<and> truthy (FLIPPER_NO_REBUILD_PLUGINS E) \<longrightarrow>
          linked (events_of (prepareDefaultPlugins sys G E True w)) =
            map (\<lambda>p. (dir p, path_join [defaultPluginsDir G, name p]))
              (defaultPlugins_of True sourcePlugins))"
proof -
  have sel: "set (map id' (defaultPlugins_of True sourcePlugins)) \<subseteq> hardcodedPlugins"
    "subseq (defaultPlugins_of True sourcePlugins) sourcePlugins"
    "defaultPlugins_of True sourcePlugins = filter (\<lambda>p. id' p \<in> hardcodedPlugins) sourcePlugins"
    by (auto simp: defaultPlugins_of_def)
  have run: "(\<not> truthy (FLIPPER_NO_BUNDLED_PLUGINS E) \<longrightarrow>
          manifests (events_of (prepareDefaultPlugins sys G E True w)) =
            [(path_join [defaultPluginsDir G, ''bundled.json''],
              bundledPlugins (version_pkg G) (defaultPlugins_of True sourcePlugins))])
     \<and> (truthy (FLIPPER_NO_BUNDLED_PLUGINS E) \<and> \<not> truthy (FLIPPER_NO_REBUILD_PLUGINS E) \<longrightarrow>
          built (events_of (prepareDefaultPlugins sys G E True w)) =
            map dir (defaultPlugins_of True sourcePlugins))
     \<and> (truthy (FLIPPER_NO_BUNDLED_PLUGINS E) \<and> truthy (FLIPPER_NO_REBUILD_PLUGINS E) \<longrightarrow>
          linked (events_of (prepareDefaultPlugins sys G E True w)) =
            map (\<lambda>p. (dir p, path_join [defaultPluginsDir G, name p]))
              (defaultPlugins_of True sourcePlugins))"
    unfolding prepareDefaultPlugins_def
    using assms
    by (simp add: seq_await seq_assoc await_if getSourcePlugins_def fs_emptyDir_def seq_call await_call
          seq_buildDefaultPlugins build_observed generate_then_log)
  from sel run show ?thesis by blast
qed

text \<open>
  On the small installation the plugin \<^verbatim>\<open>Sandbox\<close>, which is not in the allow-list, is
  left out and the other two keep their order.
\<close>

theorem prepareDefaultPlugins_insiders_selection_witness:
  "\<not> truthy (FLIPPER_DEFAULT_PLUGINS_DIR demo_E)
   \<and> \<not> truthy (FLIPPER_NO_DEFAULT_PLUGINS demo_E)
   \<and> fst (sys_emptyDir demo_sys (defaultPluginsDir demo_G) demo_fs) = Inr ()
   \<and> fst (sys_getSourcePlugins demo_sys (snd (sys_emptyDir demo_sys (defaultPluginsDir demo_G) demo_fs)))
       = Inr demo_plugins
   \<and> map id' demo_plugins = [''Network'', ''Sandbox'', ''Inspector'']
   \<and> map id' (defaultPlugins_of True demo_plugins) = [''Network'', ''Inspector'']
   \<and> set (map id' (defaultPlugins_of True demo_plugins)) \<subseteq> hardcodedPlugins
   \<and> subseq (defaultPlugins_of True demo_plugins) demo_plugins
   \<and> manifests (events_of (prepareDefaultPlugins demo_sys demo_G demo_E True demo_fs)) =
        [(path_join [defaultPluginsDir demo_G, ''bundled.json''],
          bundledPlugins (version_pkg demo_G) (defaultPlugins_of True demo_plugins))]"
proof -
  have h1: "\<not> truthy (FLIPPER_DEFAULT_PLUGINS_DIR demo_E)" by code_simp
  have h2: "\<not> truthy (FLIPPER_NO_DEFAULT_PLUGINS demo_E)" by code_simp
  have h3: "fst (sys_emptyDir demo_sys (defaultPluginsDir demo_G) demo_fs) = Inr ()" by code_simp
  have h4: "fst (sys_getSourcePlugins demo_sys (snd (sys_emptyDir demo_sys (defaultPluginsDir demo_G) demo_fs)))
       = Inr demo_plugins" by (simp add: demo_sys_def)
  have h5: "\<not> truthy (FLIPPER_NO_BUNDLED_PLUGINS demo_E)" by code_simp
  have a: "map id' demo_plugins = [''Network'', ''Sandbox'', ''Inspector'']" by code_simp
  have b: "map id' (defaultPlugins_of True demo_plugins) = [''Network'', ''Inspector'']" by code_simp
  note t = prepareDefaultPlugins_insiders_selection [OF h1 h2 h3 h4]
  from t h5 have c: "set (map id' (defaultPlugins_of True demo_plugins)) \<subseteq> hardcodedPlugins"
    "subseq (defaultPlugins_of True demo_plugins) demo_plugins"
    "manifests (events_of (prepareDefaultPlugins demo_sys demo_G demo_E True demo_fs)) =
        [(path_join [defaultPluginsDir demo_G, ''bundled.json''],
          bundledPlugins (version_pkg demo_G) (defaultPlugins_of True demo_plugins))]"
    by blast+
  from h1 h2 h3 h4 a b c show ?thesis by blast
qed

section \<open>Generating the entry points\<close>

text \<open>
  Claim C2. \<^verbatim>\<open>generateDefaultPluginEntryPoints\<close> first logs, then hands to \<^verbatim>\<open>writeJSON\<close>
  the list \<open>bundledPlugins\<close> of its input. That list has one descriptor for each input
  descriptor, at the same position, whose \<^verbatim>\<open>version\<close> is the version of the tool's own
  package when the input's is \<^verbatim>\<open>0.0.0\<close> and the input's otherwise, whose
  \<^verbatim>\<open>flipperSDKVersion\<close> follows the same rule on its own, whose \<^verbatim>\<open>isBundled\<close> is true,
  whose \<^verbatim>\<open>dir\<close> and \<^verbatim>\<open>entry\<close> are \<^verbatim>\<open>undefined\<close>, and whose other properties are the
  input's.
\<close>

theorem generateDefaultPluginEntryPoints_promotes:
  "take 2 (events_of (generateDefaultPluginEntryPoints sys G L w)) =
     [ConsoleLog (''Generating entry points for '' @ show_nat (length L) @ '' bundled plugins...''),
      WriteJSON (path_join [defaultPluginsDir G, ''bundled.json'']) (bundledPlugins (version_pkg G) L)]
   \<and> length (bundledPlugins (version_pkg G) L) = length L
   \<and> (\<forall>i < length L.
        version (bundledPlugins (version_pkg G) L ! i) =
          (if version (L ! i) = ''0.0.0'' then version_pkg G else version (L ! i))
        \<and> flipperSDKVersion (bundledPlugins (version_pkg G) L ! i) =
          (if flipperSDKVersion (L ! i) = Some ''0.0.0'' then Some (version_pkg G)
           else flipperSDKVersion (L ! i))
        \<and> isBundled (bundledPlugins (version_pkg G) L ! i)
        \<and> dir (bundledPlugins (version_pkg G) L ! i) = None
        \<and> entry (bundledPlugins (version_pkg G) L ! i) = None
        \<and> id' (bundledPlugins (version_pkg G) L ! i) = id' (L ! i)
        \<and> name (bundledPlugins (version_pkg G) L ! i) = name (L ! i)
        \<and> others (bundledPlugins (version_pkg G) L ! i) = others (L ! i))"
proof -
  have "take 2 (events_of (generateDefaultPluginEntryPoints sys G L w)) =
     [ConsoleLog (''Generating entry points for '' @ show_nat (length L) @ '' bundled plugins...''),
      WriteJSON (path_join [defaultPluginsDir G, ''bundled.json'']) (bundledPlugins (version_pkg G) L)]"
    unfolding generateDefaultPluginEntryPoints_def
    by (simp add: fs_writeJSON_def seq_call split: sum.splits)
  moreover have "\<forall>i < length L.
        version (bundledPlugins (version_pkg G) L ! i) =
          (if version (L ! i) = ''0.0.0'' then version_pkg G else version (L ! i))
        \<and> flipperSDKVersion (bundledPlugins (version_pkg G) L ! i) =
          (if flipperSDKVersion (L ! i) = Some ''0.0.0'' then Some (version_pkg G)
           else flipperSDKVersion (L ! i))
        \<and> isBundled (bundledPlugins (version_pkg G) L ! i)
        \<and> dir (bundledPlugins (version_pkg G) L ! i) = None
        \<and> entry (bundledPlugins (version_pkg G) L ! i) = None
        \<and> id' (bundledPlugins (version_pkg G) L ! i) = id' (L ! i)
        \<and> name (bundledPlugins (version_pkg G) L ! i) = name (L ! i)
        \<and> others (bundledPlugins (version_pkg G) L ! i) = others (L ! i)"
    by (simp add: bundledPlugins_def)
  ultimately show ?thesis by simp
qed

text \<open>
  The first plugin of the small installation has both versions unset, the second has a
  version of its own and no SDK version.
\<close>

theorem generateDefaultPluginEntryPoints_promotes_witness:
  "(0::nat) < length demo_plugins \<and> (1::nat) < length demo_plugins
   \<and> version (demo_plugins ! 0) = ''0.0.0''
   \<and> version (bundledPlugins (version_pkg demo_G) demo_plugins ! 0) = ''0.99.0''
   \<and> flipperSDKVersion (bundledPlugins (version_pkg demo_G) demo_plugins ! 0) = Some ''0.99.0''
   \<and> isBundled (bundledPlugins (version_pkg demo_G) demo_plugins ! 0)
   \<and> dir (bundledPlugins (version_pkg demo_G) demo_plugins ! 0) = None
   \<and> entry (bundledPlugins (version_pkg demo_G) demo_plugins ! 0) = None
   \<and> version (bundledPlugins (version_pkg demo_G) demo_plugins ! 1) = ''1.2.3''
   \<and> flipperSDKVersion (bundledPlugins (version_pkg demo_G) demo_plugins ! 1) = None"
proof -
  have h0: "(0::nat) < length demo_plugins" and h1: "(1::nat) < length demo_plugins"
    by (simp_all add: demo_plugins_def)
  note t = generateDefaultPluginEntryPoints_promotes
    [where sys=demo_sys and G=demo_G and L=demo_plugins and w=demo_fs,
     THEN conjunct2, THEN conjunct2, rule_format]
  show ?thesis
    using t [OF h0] t [OF h1] h0 h1
    by (simp add: demo_plugins_def demo_G_def)
qed

text \<open>
  Claim C7. The manifest that \<^verbatim>\<open>generateDefaultPluginEntryPoints\<close> hands to
  \<^verbatim>\<open>writeJSON\<close> is the same in any two runs on the same list, whatever the file system
  holds and whatever the calls do: it is written once, to \<^verbatim>\<open>bundled.json\<close>, and is
  \<open>bundledPlugins\<close> of the list. Every loader module written has one \<^verbatim>\<open>tryRequire\<close>
  line for each plugin of the list, naming it, in the order of the list: its text ends
  with \<^verbatim>\<open>export default {\<close>, those lines joined by a comma and a newline, and
  \<^verbatim>\<open>} as any\<close>. A run that returns wrote the loader to both source trees. On the file system of \<^verbatim>\<open>fs-extra\<close>, a
  run that returns leaves that manifest in \<^verbatim>\<open>bundled.json\<close>, whatever was there.
\<close>

theorem generateDefaultPluginEntryPoints_deterministic:
  "manifests (events_of (generateDefaultPluginEntryPoints sys1 G L w1)) =
     manifests (events_of (generateDefaultPluginEntryPoints sys2 G L w2))
   \<and> manifests (events_of (generateDefaultPluginEntryPoints sys1 G L w1)) =
       [(path_join [defaultPluginsDir G, ''bundled.json''], bundledPlugins (version_pkg G) L)]
   \<and> (\<forall>(p, c) \<in> set (loaders (events_of (generateDefaultPluginEntryPoints sys1 G L w1))).
        c = generatedIndex
              (join ('','' @ nl)
                 (map (\<lambda>p. ''  '' @ quote @ name p @ quote @ '': tryRequire('' @ quote @ name p
                           @ quote @ '', () => require('' @ quote @ name p @ quote @ ''))'') L)))
   \<and> (outcome_of (generateDefaultPluginEntryPoints sys1 G L w1) = Returned () \<longrightarrow>
        map fst (loaders (events_of (generateDefaultPluginEntryPoints sys1 G L w1))) =
          [path_join [appDir G, ''src'', ''defaultPlugins'', ''index.tsx''],
           path_join [browserUiDir G, ''src'', ''defaultPlugins'', ''index.tsx'']])
   \<and> (outcome_of (generateDefaultPluginEntryPoints (fs_extra pkgs) G L fs) = Returned () \<longrightarrow>
        world_of (generateDefaultPluginEntryPoints (fs_extra pkgs) G L fs)
          (path_join [defaultPluginsDir G, ''bundled.json'']) =
            Some (File (Json (bundledPlugins (version_pkg G) L))))
   \<and> (\<forall>(p, c) \<in> set (loaders (events_of (generateDefaultPluginEntryPoints sys1 G L w1))).
        suffix
          (''  export default {'' @ nl
           @ join ('','' @ nl)
               (map (\<lambda>p. ''  '' @ quote @ name p @ quote @ '': tryRequire('' @ quote @ name p
                         @ quote @ '', () => require('' @ quote @ name p @ quote @ ''))'') L)
           @ nl @ ''} as any'' @ nl @ ''  '')
          c)"
proof -
  have calls: "manifests (events_of (generateDefaultPluginEntryPoints sys1 G L w1)) =
     manifests (events_of (generateDefaultPluginEntryPoints sys2 G L w2))
   \<and> manifests (events_of (generateDefaultPluginEntryPoints sys1 G L w1)) =
       [(path_join [defaultPluginsDir G, ''bundled.json''], bundledPlugins (version_pkg G) L)]
   \<and> (\<forall>(p, c) \<in> set (loaders (events_of (generateDefaultPluginEntryPoints sys1 G L w1))).
        c = generatedIndex
              (join ('','' @ nl)
                 (map (\<lambda>p. ''  '' @ quote @ name p @ quote @ '': tryRequire('' @ quote @ name p
                           @ quote @ '', () => require('' @ quote @ name p @ quote @ ''))'') L)))
   \<and> (outcome_of (generateDefaultPluginEntryPoints sys1 G L w1) = Returned () \<longrightarrow>
        map fst (loaders (events_of (generateDefaultPluginEntryPoints sys1 G L w1))) =
          [path_join [appDir G, ''src'', ''defaultPlugins'', ''index.tsx''],
           path_join [browserUiDir G, ''src'', ''defaultPlugins'', ''index.tsx'']])
   \<and> (outcome_of (generateDefaultPluginEntryPoints (fs_extra pkgs) G L fs) = Returned () \<longrightarrow>
        world_of (generateDefaultPluginEntryPoints (fs_extra pkgs) G L fs)
          (path_join [defaultPluginsDir G, ''bundled.json'']) =
            Some (File (Json (bundledPlugins (version_pkg G) L))))"
    using generate_observed(2) [where sys=sys1 and G=G and L=L and w=w1]
      generate_Returned [where sys=sys1 and G=G and L=L and w=w1]
      generate_persists(1) [where pkgs=pkgs and G=G and L=L and fs=fs]
    by (auto simp: generate_observed(1) pluginRequres_bundled)
  then have "\<forall>(p, c) \<in> set (loaders (events_of (generateDefaultPluginEntryPoints sys1 G L w1))).
        c = generatedIndex
              (join ('','' @ nl)
                 (map (\<lambda>p. ''  '' @ quote @ name p @ quote @ '': tryRequire('' @ quote @ name p
                           @ quote @ '', () => require('' @ quote @ name p @ quote @ ''))'') L))"
    by blast
  then have module: "\<forall>(p, c) \<in> set (loaders (events_of (generateDefaultPluginEntryPoints sys1 G L w1))).
        suffix
          (''  export default {'' @ nl
           @ join ('','' @ nl)
               (map (\<lambda>p. ''  '' @ quote @ name p @ quote @ '': tryRequire('' @ quote @ name p
                         @ quote @ '', () => require('' @ quote @ name p @ quote @ ''))'') L)
           @ nl @ ''} as any'' @ nl @ ''  '')
          c"
    using generatedIndex_exports by (auto simp: split_beta)
  show ?thesis
    using calls module
    apply (elim conjE)
    apply (intro conjI)
    apply assumption+
    done
qed

text \<open>
  The loader of the three plugins of the small installation, whose text ends with the
  three \<^verbatim>\<open>tryRequire\<close> lines in the order of the list, and the same manifest handed over on
  an empty file system, where the write itself fails.
\<close>

theorem generateDefaultPluginEntryPoints_deterministic_witness:
  "outcome_of (generateDefaultPluginEntryPoints demo_sys demo_G demo_plugins demo_fs) = Returned ()
   \<and> map fst (loaders (events_of (generateDefaultPluginEntryPoints demo_sys demo_G demo_plugins demo_fs))) =
       [''/r/app/src/defaultPlugins/index.tsx'', ''/r/ui/src/defaultPlugins/index.tsx'']
   \<and> snd (hd (loaders (events_of (generateDefaultPluginEntryPoints demo_sys demo_G demo_plugins demo_fs)))) =
       generatedIndex
         (''  '' @ quote @ ''net'' @ quote @ '': tryRequire('' @ quote @ ''net''
            @ quote @ '', () => require('' @ quote @ ''net'' @ quote @ ''))'' @ '','' @ nl
          @ ''  '' @ quote @ ''sandbox'' @ quote @ '': tryRequire('' @ quote @ ''sandbox''
            @ quote @ '', () => require('' @ quote @ ''sandbox'' @ quote @ ''))'' @ '','' @ nl
          @ ''  '' @ quote @ ''layout'' @ quote @ '': tryRequire('' @ quote @ ''layout''
            @ quote @ '', () => require('' @ quote @ ''layout'' @ quote @ ''))'')
   \<and> suffix
       (''  export default {'' @ nl
        @ ''  '' @ quote @ ''net'' @ quote @ '': tryRequire('' @ quote @ ''net''
            @ quote @ '', () => require('' @ quote @ ''net'' @ quote @ ''))'' @ '','' @ nl
        @ ''  '' @ quote @ ''sandbox'' @ quote @ '': tryRequire('' @ quote @ ''sandbox''
            @ quote @ '', () => require('' @ quote @ ''sandbox'' @ quote @ ''))'' @ '','' @ nl
        @ ''  '' @ quote @ ''layout'' @ quote @ '': tryRequire('' @ quote @ ''layout''
            @ quote @ '', () => require('' @ quote @ ''layout'' @ quote @ ''))''
        @ nl @ ''} as any'' @ nl @ ''  '')
       (snd (hd (loaders (events_of (generateDefaultPluginEntryPoints demo_sys demo_G demo_plugins demo_fs)))))
   \<and> manifests (events_of (generateDefaultPluginEntryPoints demo_sys demo_G demo_plugins Map.empty)) =
       manifests (events_of (generateDefaultPluginEntryPoints demo_sys demo_G demo_plugins demo_fs))"
proof -
  let ?es = "events_of (generateDefaultPluginEntryPoints demo_sys demo_G demo_plugins demo_fs)"
  have h: "outcome_of (generateDefaultPluginEntryPoints demo_sys demo_G demo_plugins demo_fs) = Returned ()"
    by code_simp
  note t = generateDefaultPluginEntryPoints_deterministic
    [where ?sys1.0=demo_sys and G=demo_G and L=demo_plugins and ?w1.0=demo_fs
       and ?sys2.0=demo_sys and ?w2.0=demo_fs]
  have "map fst (loaders ?es) =
       [path_join [appDir demo_G, ''src'', ''defaultPlugins'', ''index.tsx''],
        path_join [browserUiDir demo_G, ''src'', ''defaultPlugins'', ''index.tsx'']]"
    by (rule t [THEN conjunct2, THEN conjunct2, THEN conjunct2, THEN conjunct1, rule_format, OF h])
  then have a: "map fst (loaders ?es) =
       [''/r/app/src/defaultPlugins/index.tsx'', ''/r/ui/src/defaultPlugins/index.tsx'']"
    by (simp add: path_join_def demo_G_def)
  then have ne: "hd (loaders ?es) \<in> set (loaders ?es)"
    by (cases "loaders ?es") simp_all
  have stmts: "join ('','' @ nl)
                 (map (\<lambda>p. ''  '' @ quote @ name p @ quote @ '': tryRequire('' @ quote @ name p
                           @ quote @ '', () => require('' @ quote @ name p @ quote @ ''))'') demo_plugins)
      = ''  '' @ quote @ ''net'' @ quote @ '': tryRequire('' @ quote @ ''net''
            @ quote @ '', () => require('' @ quote @ ''net'' @ quote @ ''))'' @ '','' @ nl
          @ ''  '' @ quote @ ''sandbox'' @ quote @ '': tryRequire('' @ quote @ ''sandbox''
            @ quote @ '', () => require('' @ quote @ ''sandbox'' @ quote @ ''))'' @ '','' @ nl
          @ ''  '' @ quote @ ''layout'' @ quote @ '': tryRequire('' @ quote @ ''layout''
            @ quote @ '', () => require('' @ quote @ ''layout'' @ quote @ ''))''"
    by (simp add: demo_plugins_def)
  have "case hd (loaders ?es) of (p, c) \<Rightarrow>
        c = generatedIndex (join ('','' @ nl)
                 (map (\<lambda>p. ''  '' @ quote @ name p @ quote @ '': tryRequire('' @ quote @ name p
                           @ quote @ '', () => require('' @ quote @ name p @ quote @ ''))'') demo_plugins))"
    by (rule t [THEN conjunct2, THEN conjunct2, THEN conjunct1, THEN bspec, OF ne])
  then have "snd (hd (loaders ?es)) = generatedIndex (join ('','' @ nl)
                 (map (\<lambda>p. ''  '' @ quote @ name p @ quote @ '': tryRequire('' @ quote @ name p
                           @ quote @ '', () => require('' @ quote @ name p @ quote @ ''))'') demo_plugins))"
    by (simp add: split_beta)
  then have b: "snd (hd (loaders ?es)) =
       generatedIndex
         (''  '' @ quote @ ''net'' @ quote @ '': tryRequire('' @ quote @ ''net''
            @ quote @ '', () => require('' @ quote @ ''net'' @ quote @ ''))'' @ '','' @ nl
          @ ''  '' @ quote @ ''sandbox'' @ quote @ '': tryRequire('' @ quote @ ''sandbox''
            @ quote @ '', () => require('' @ quote @ ''sandbox'' @ quote @ ''))'' @ '','' @ nl
          @ ''  '' @ quote @ ''layout'' @ quote @ '': tryRequire('' @ quote @ ''layout''
            @ quote @ '', () => require('' @ quote @ ''layout'' @ quote @ ''))'')"
    unfolding stmts .
  have "case hd (loaders ?es) of (p, c) \<Rightarrow>
        suffix
          (''  export default {'' @ nl
           @ join ('','' @ nl)
               (map (\<lambda>p. ''  '' @ quote @ name p @ quote @ '': tryRequire('' @ quote @ name p
                         @ quote @ '', () => require('' @ quote @ name p @ quote @ ''))'') demo_plugins)
           @ nl @ ''} as any'' @ nl @ ''  '')
          c"
    by (rule t [THEN conjunct2, THEN conjunct2, THEN conjunct2, THEN conjunct2, THEN conjunct2,
          THEN bspec, OF ne])
  then have "suffix
          (''  export default {'' @ nl
           @ join ('','' @ nl)
               (map (\<lambda>p. ''  '' @ quote @ name p @ quote @ '': tryRequire('' @ quote @ name p
                         @ quote @ '', () => require('' @ quote @ name p @ quote @ ''))'') demo_plugins)
           @ nl @ ''} as any'' @ nl @ ''  '')
          (snd (hd (loaders ?es)))"
    by (simp only: split_beta)
  then have s: "suffix
       (''  export default {'' @ nl
        @ (''  '' @ quote @ ''net'' @ quote @ '': tryRequire('' @ quote @ ''net''
            @ quote @ '', () => require('' @ quote @ ''net'' @ quote @ ''))'' @ '','' @ nl
        @ ''  '' @ quote @ ''sandbox'' @ quote @ '': tryRequire('' @ quote @ ''sandbox''
            @ quote @ '', () => require('' @ quote @ ''sandbox'' @ quote @ ''))'' @ '','' @ nl
        @ ''  '' @ quote @ ''layout'' @ quote @ '': tryRequire('' @ quote @ ''layout''
            @ quote @ '', () => require('' @ quote @ ''layout'' @ quote @ ''))'')
        @ nl @ ''} as any'' @ nl @ ''  '')
       (snd (hd (loaders ?es)))"
    unfolding stmts .
  have c: "manifests (events_of (generateDefaultPluginEntryPoints demo_sys demo_G demo_plugins Map.empty)) =
       manifests ?es"
    by (rule generateDefaultPluginEntryPoints_deterministic
      [where ?sys1.0=demo_sys and ?sys2.0=demo_sys and G=demo_G and L=demo_plugins
         and ?w1.0=Map.empty and ?w2.0=demo_fs, THEN conjunct1])
  from s have s': "suffix
       (''  export default {'' @ nl
        @ ''  '' @ quote @ ''net'' @ quote @ '': tryRequire('' @ quote @ ''net''
            @ quote @ '', () => require('' @ quote @ ''net'' @ quote @ ''))'' @ '','' @ nl
        @ ''  '' @ quote @ ''sandbox'' @ quote @ '': tryRequire('' @ quote @ ''sandbox''
            @ quote @ '', () => require('' @ quote @ ''sandbox'' @ quote @ ''))'' @ '','' @ nl
        @ ''  '' @ quote @ ''layout'' @ quote @ '': tryRequire('' @ quote @ ''layout''
            @ quote @ '', () => require('' @ quote @ ''layout'' @ quote @ ''))''
        @ nl @ ''} as any'' @ nl @ ''  '')
       (snd (hd (loaders ?es)))"
    by (simp only: append_assoc)
  show ?thesis
    by (rule conjI [OF h conjI [OF a conjI [OF b conjI [OF s' c]]]])
qed

section \<open>The override directory\<close>

text \<open>
  Claim C8. When \<^verbatim>\<open>FLIPPER_DEFAULT_PLUGINS_DIR\<close> is set (to a non-empty string), the
  calls of \<^verbatim>\<open>prepareDefaultPlugins\<close> are, up to the first that throws: empty the
  default-plugins directory, copy the override directory over it, then the calls of the
  generator on the empty list, which write the manifest \<^verbatim>\<open>[]\<close> and, to both source
  trees, the loader with no plugin. A run that returns made all of them. No run
  enumerates the source plugins, builds or links one. On the file system of
  \<^verbatim>\<open>fs-extra\<close>, a run that returns leaves the manifest \<^verbatim>\<open>[]\<close> in \<^verbatim>\<open>bundled.json\<close> and the
  loader with no plugin in both source trees.
\<close>

theorem prepareDefaultPlugins_override:
  assumes "truthy (FLIPPER_DEFAULT_PLUGINS_DIR E)"
  shows
   \<open>prefix (events_of (prepareDefaultPlugins sys G E isInsidersBuild w))
      ([ConsoleLog (''Preparing default plugins (isInsidersBuild='' @ show_bool isInsidersBuild @ '')...''),
        EmptyDir (defaultPluginsDir G),
        ConsoleLog (''Copying the provided default plugins dir "'' @ the (FLIPPER_DEFAULT_PLUGINS_DIR E) @ ''"...''),
        Copy (the (FLIPPER_DEFAULT_PLUGINS_DIR E)) (defaultPluginsDir G),
        ConsoleLog ''Copied the provided default plugins dir.'',
        ConsoleLog ''Generating entry points for 0 bundled plugins...'',
        WriteJSON (path_join [defaultPluginsDir G, ''bundled.json'']) [],
        EnsureDir (path_join [appDir G, ''src'', ''defaultPlugins'']),
        WriteFile (path_join [appDir G, ''src'', ''defaultPlugins'', ''index.tsx'']) (generatedIndex []),
        EnsureDir (path_join [browserUiDir G, ''src'', ''defaultPlugins'']),
        WriteFile (path_join [browserUiDir G, ''src'', ''defaultPlugins'', ''index.tsx'']) (generatedIndex []),
        ConsoleLog ''Generated bundled plugin entry points.'',
        ConsoleLog ''Prepared default plugins.''])
    \<and> (outcome_of (prepareDefaultPlugins sys G E isInsidersBuild w) = Returned () \<longrightarrow>
         events_of (prepareDefaultPlugins sys G E isInsidersBuild w) =
           [ConsoleLog (''Preparing default plugins (isInsidersBuild='' @ show_bool isInsidersBuild @ '')...''),
            EmptyDir (defaultPluginsDir G),
            ConsoleLog (''Copying the provided default plugins dir "'' @ the (FLIPPER_DEFAULT_PLUGINS_DIR E) @ ''"...''),
            Copy (the (FLIPPER_DEFAULT_PLUGINS_DIR E)) (defaultPluginsDir G),
            ConsoleLog ''Copied the provided default plugins dir.'',
            ConsoleLog ''Generating entry points for 0 bundled plugins...'',
            WriteJSON (path_join [defaultPluginsDir G, ''bundled.json'']) [],
            EnsureDir (path_join [appDir G, ''src'', ''defaultPlugins'']),
            WriteFile (path_join [appDir G, ''src'', ''defaultPlugins'', ''index.tsx'']) (generatedIndex []),
            EnsureDir (path_join [browserUiDir G, ''src'', ''defaultPlugins'']),
            WriteFile (path_join [browserUiDir G, ''src'', ''defaultPlugins'', ''index.tsx'']) (generatedIndex []),
            ConsoleLog ''Generated bundled plugin entry points.'',
            ConsoleLog ''Prepared default plugins.''])
    \<and> GetSourcePlugins \<notin> set (events_of (prepareDefaultPlugins sys G E isInsidersBuild w))
    \<and> built (events_of (prepareDefaultPlugins sys G E isInsidersBuild w)) = []
    \<and> linked (events_of (prepareDefaultPlugins sys G E isInsidersBuild w)) = []
    \<and> (outcome_of (prepareDefaultPlugins (fs_extra pkgs) G E isInsidersBuild fs) = Returned () \<longrightarrow>
            world_of (prepareDefaultPlugins (fs_extra pkgs) G E isInsidersBuild fs)
              (path_join [defaultPluginsDir G, ''bundled.json'']) = Some (File (Json []))
            \<and> world_of (prepareDefaultPlugins (fs_extra pkgs) G E isInsidersBuild fs)
              (path_join [appDir G, ''src'', ''defaultPlugins'', ''index.tsx'']) =
                Some (File (Text (generatedIndex [])))
            \<and> world_of (prepareDefaultPlugins (fs_extra pkgs) G E isInsidersBuild fs)
              (path_join [browserUiDir G, ''src'', ''defaultPlugins'', ''index.tsx'']) =
                Some (File (Text (generatedIndex []))))\<close>
proof -
  let ?d = "the (FLIPPER_DEFAULT_PLUGINS_DIR E)"
  let ?tail = "seq (generateDefaultPluginEntryPoints sys G []) (console_log ''Prepared default plugins.'')"
  note g = generate_then_log [where sys=sys and G=G and L="[]" and msg="''Prepared default plugins.''",
      unfolded generate_calls_Nil]
  have files: "(outcome_of (prepareDefaultPlugins (fs_extra pkgs) G E isInsidersBuild fs) = Returned () \<longrightarrow>
          world_of (prepareDefaultPlugins (fs_extra pkgs) G E isInsidersBuild fs)
            (path_join [defaultPluginsDir G, ''bundled.json'']) = Some (File (Json []))
          \<and> world_of (prepareDefaultPlugins (fs_extra pkgs) G E isInsidersBuild fs)
            (path_join [appDir G, ''src'', ''defaultPlugins'', ''index.tsx'']) =
              Some (File (Text (generatedIndex [])))
          \<and> world_of (prepareDefaultPlugins (fs_extra pkgs) G E isInsidersBuild fs)
            (path_join [browserUiDir G, ''src'', ''defaultPlugins'', ''index.tsx'']) =
              Some (File (Text (generatedIndex []))))"
  proof
    assume r: "outcome_of (prepareDefaultPlugins (fs_extra pkgs) G E isInsidersBuild fs) = Returned ()"
    from prepare_ends_with_generate [OF _ r] assms obtain fs' where
      g: "outcome_of (generateDefaultPluginEntryPoints (fs_extra pkgs) G [] fs') = Returned ()"
      and w: "world_of (prepareDefaultPlugins (fs_extra pkgs) G E isInsidersBuild fs) =
               world_of (generateDefaultPluginEntryPoints (fs_extra pkgs) G [] fs')"
      by blast
    from generate_persists [OF g] show "world_of (prepareDefaultPlugins (fs_extra pkgs) G E isInsidersBuild fs)
            (path_join [defaultPluginsDir G, ''bundled.json'']) = Some (File (Json []))
          \<and> world_of (prepareDefaultPlugins (fs_extra pkgs) G E isInsidersBuild fs)
            (path_join [appDir G, ''src'', ''defaultPlugins'', ''index.tsx'']) =
              Some (File (Text (generatedIndex [])))
          \<and> world_of (prepareDefaultPlugins (fs_extra pkgs) G E isInsidersBuild fs)
            (path_join [browserUiDir G, ''src'', ''defaultPlugins'', ''index.tsx'']) =
              Some (File (Text (generatedIndex [])))"
      unfolding w by simp
  qed
  have calls: \<open>prefix (events_of (prepareDefaultPlugins sys G E isInsidersBuild w))
      ([ConsoleLog (''Preparing default plugins (isInsidersBuild='' @ show_bool isInsidersBuild @ '')...''),
        EmptyDir (defaultPluginsDir G),
        ConsoleLog (''Copying the provided default plugins dir "'' @ the (FLIPPER_DEFAULT_PLUGINS_DIR E) @ ''"...''),
        Copy (the (FLIPPER_DEFAULT_PLUGINS_DIR E)) (defaultPluginsDir G),
        ConsoleLog ''Copied the provided default plugins dir.'',
        ConsoleLog ''Generating entry points for 0 bundled plugins...'',
        WriteJSON (path_join [defaultPluginsDir G, ''bundled.json'']) [],
        EnsureDir (path_join [appDir G, ''src'', ''defaultPlugins'']),
        WriteFile (path_join [appDir G, ''src'', ''defaultPlugins'', ''index.tsx'']) (generatedIndex []),
        EnsureDir (path_join [browserUiDir G, ''src'', ''defaultPlugins'']),
        WriteFile (path_join [browserUiDir G, ''src'', ''defaultPlugins'', ''index.tsx'']) (generatedIndex []),
        ConsoleLog ''Generated bundled plugin entry points.'',
        ConsoleLog ''Prepared default plugins.''])
    \<and> (outcome_of (prepareDefaultPlugins sys G E isInsidersBuild w) = Returned () \<longrightarrow>
         events_of (prepareDefaultPlugins sys G E isInsidersBuild w) =
           [ConsoleLog (''Preparing default plugins (isInsidersBuild='' @ show_bool isInsidersBuild @ '')...''),
            EmptyDir (defaultPluginsDir G),
            ConsoleLog (''Copying the provided default plugins dir "'' @ the (FLIPPER_DEFAULT_PLUGINS_DIR E) @ ''"...''),
            Copy (the (FLIPPER_DEFAULT_PLUGINS_DIR E)) (defaultPluginsDir G),
            ConsoleLog ''Copied the provided default plugins dir.'',
            ConsoleLog ''Generating entry points for 0 bundled plugins...'',
            WriteJSON (path_join [defaultPluginsDir G, ''bundled.json'']) [],
            EnsureDir (path_join [appDir G, ''src'', ''defaultPlugins'']),
            WriteFile (path_join [appDir G, ''src'', ''defaultPlugins'', ''index.tsx'']) (generatedIndex []),
            EnsureDir (path_join [browserUiDir G, ''src'', ''defaultPlugins'']),
            WriteFile (path_join [browserUiDir G, ''src'', ''defaultPlugins'', ''index.tsx'']) (generatedIndex []),
            ConsoleLog ''Generated bundled plugin entry points.'',
            ConsoleLog ''Prepared default plugins.''])
    \<and> GetSourcePlugins \<notin> set (events_of (prepareDefaultPlugins sys G E isInsidersBuild w))
    \<and> built (events_of (prepareDefaultPlugins sys G E isInsidersBuild w)) = []
    \<and> linked (events_of (prepareDefaultPlugins sys G E isInsidersBuild w)) = []\<close>
    unfolding prepareDefaultPlugins_def
    using assms g
    by (simp add: Let_def seq_assoc fs_emptyDir_def fs_copy_def seq_call split: sum.splits)
  from calls files show ?thesis by blast
qed

text \<open>
  On the small installation the stale file is gone, the prebuilt plugin is in the
  default-plugins directory and the manifest is empty.
\<close>

theorem prepareDefaultPlugins_override_witness:
  "truthy (FLIPPER_DEFAULT_PLUGINS_DIR (demo_E\<lparr>FLIPPER_DEFAULT_PLUGINS_DIR := Some ''/o''\<rparr>))
   \<and> outcome_of (prepareDefaultPlugins demo_sys demo_G
         (demo_E\<lparr>FLIPPER_DEFAULT_PLUGINS_DIR := Some ''/o''\<rparr>) False demo_fs) = Returned ()
   \<and> manifests (events_of (prepareDefaultPlugins demo_sys demo_G
         (demo_E\<lparr>FLIPPER_DEFAULT_PLUGINS_DIR := Some ''/o''\<rparr>) False demo_fs)) =
       [(''/r/static/defaultPlugins/bundled.json'', [])]
   \<and> GetSourcePlugins \<notin> set (events_of (prepareDefaultPlugins demo_sys demo_G
         (demo_E\<lparr>FLIPPER_DEFAULT_PLUGINS_DIR := Some ''/o''\<rparr>) False demo_fs))
   \<and> world_of (prepareDefaultPlugins demo_sys demo_G
         (demo_E\<lparr>FLIPPER_DEFAULT_PLUGINS_DIR := Some ''/o''\<rparr>) False demo_fs)
       ''/r/static/defaultPlugins/stale'' = None
   \<and> world_of (prepareDefaultPlugins demo_sys demo_G
         (demo_E\<lparr>FLIPPER_DEFAULT_PLUGINS_DIR := Some ''/o''\<rparr>) False demo_fs)
       ''/r/static/defaultPlugins/pre'' = Some (File (Text ''prebuilt''))
   \<and> world_of (prepareDefaultPlugins demo_sys demo_G
         (demo_E\<lparr>FLIPPER_DEFAULT_PLUGINS_DIR := Some ''/o''\<rparr>) False demo_fs)
       ''/r/static/defaultPlugins/bundled.json'' = Some (File (Json []))"
proof -
  let ?E = "demo_E\<lparr>FLIPPER_DEFAULT_PLUGINS_DIR := Some ''/o''\<rparr>"
  have h: "truthy (FLIPPER_DEFAULT_PLUGINS_DIR ?E)" by code_simp
  have r: "outcome_of (prepareDefaultPlugins demo_sys demo_G ?E False demo_fs) = Returned ()"
    by code_simp
  note t = prepareDefaultPlugins_override
    [OF h, where sys=demo_sys and G=demo_G and isInsidersBuild=False and w=demo_fs]
  from t r have ev: \<open>events_of (prepareDefaultPlugins demo_sys demo_G ?E False demo_fs) =
           [ConsoleLog (''Preparing default plugins (isInsidersBuild='' @ show_bool False @ '')...''),
            EmptyDir (defaultPluginsDir demo_G),
            ConsoleLog (''Copying the provided default plugins dir "'' @ the (FLIPPER_DEFAULT_PLUGINS_DIR ?E) @ ''"...''),
            Copy (the (FLIPPER_DEFAULT_PLUGINS_DIR ?E)) (defaultPluginsDir demo_G),
            ConsoleLog ''Copied the provided default plugins dir.'',
            ConsoleLog ''Generating entry points for 0 bundled plugins...'',
            WriteJSON (path_join [defaultPluginsDir demo_G, ''bundled.json'']) [],
            EnsureDir (path_join [appDir demo_G, ''src'', ''defaultPlugins'']),
            WriteFile (path_join [appDir demo_G, ''src'', ''defaultPlugins'', ''index.tsx'']) (generatedIndex []),
            EnsureDir (path_join [browserUiDir demo_G, ''src'', ''defaultPlugins'']),
            WriteFile (path_join [browserUiDir demo_G, ''src'', ''defaultPlugins'', ''index.tsx'']) (generatedIndex []),
            ConsoleLog ''Generated bundled plugin entry points.'',
            ConsoleLog ''Prepared default plugins.'']\<close>
    by blast
  have a: "manifests (events_of (prepareDefaultPlugins demo_sys demo_G ?E False demo_fs)) =
       [(''/r/static/defaultPlugins/bundled.json'', [])]"
    unfolding ev by (simp add: path_join_def demo_G_def)
  from t have b: "GetSourcePlugins \<notin> set (events_of (prepareDefaultPlugins demo_sys demo_G ?E False demo_fs))"
    by blast
  have c: "world_of (prepareDefaultPlugins demo_sys demo_G ?E False demo_fs)
       ''/r/static/defaultPlugins/stale'' = None"
    by code_simp
  have d: "world_of (prepareDefaultPlugins demo_sys demo_G ?E False demo_fs)
       ''/r/static/defaultPlugins/pre'' = Some (File (Text ''prebuilt''))"
    by code_simp
  have e: "world_of (prepareDefaultPlugins demo_sys demo_G ?E False demo_fs)
       ''/r/static/defaultPlugins/bundled.json'' = Some (File (Json []))"
    by code_simp
  from h r a b c d e show ?thesis by blast
qed

section \<open>Plugins that are not bundled\<close>

text \<open>
  Claim C10. When \<^verbatim>\<open>FLIPPER_NO_BUNDLED_PLUGINS\<close> is set (to a non-empty string) and no
  override directory is given, the only manifest \<^verbatim>\<open>prepareDefaultPlugins\<close> ever writes is
  \<^verbatim>\<open>[]\<close> and the only loader it writes is the one with no plugin, whatever was selected,
  built and linked. A run that returns ends with the calls of the generator on the
  empty list and, on the file system of \<^verbatim>\<open>fs-extra\<close>, leaves the manifest \<^verbatim>\<open>[]\<close> in
  \<^verbatim>\<open>bundled.json\<close> and the loader with no plugin in both source trees.
\<close>

theorem prepareDefaultPlugins_no_bundled_plugins:
  assumes "truthy (FLIPPER_NO_BUNDLED_PLUGINS E)"
    and "\<not> truthy (FLIPPER_DEFAULT_PLUGINS_DIR E)"
  shows
    "set (manifests (events_of (prepareDefaultPlugins sys G E isInsidersBuild w))) \<subseteq>
       {(path_join [defaultPluginsDir G, ''bundled.json''], [])}
     \<and> set (loaders (events_of (prepareDefaultPlugins sys G E isInsidersBuild w))) \<subseteq>
       {(path_join [appDir G, ''src'', ''defaultPlugins'', ''index.tsx''], generatedIndex []),
        (path_join [browserUiDir G, ''src'', ''defaultPlugins'', ''index.tsx''], generatedIndex [])}
     \<and> (outcome_of (prepareDefaultPlugins sys G E isInsidersBuild w) = Returned () \<longrightarrow>
          manifests (events_of (prepareDefaultPlugins sys G E isInsidersBuild w)) =
            [(path_join [defaultPluginsDir G, ''bundled.json''], [])]
          \<and> suffix
              [ConsoleLog ''Generating entry points for 0 bundled plugins...'',
               WriteJSON (path_join [defaultPluginsDir G, ''bundled.json'']) [],
               EnsureDir (path_join [appDir G, ''src'', ''defaultPlugins'']),
               WriteFile (path_join [appDir G, ''src'', ''defaultPlugins'', ''index.tsx'']) (generatedIndex []),
               EnsureDir (path_join [browserUiDir G, ''src'', ''defaultPlugins'']),
               WriteFile (path_join [browserUiDir G, ''src'', ''defaultPlugins'', ''index.tsx'']) (generatedIndex []),
               ConsoleLog ''Generated bundled plugin entry points.'',
               ConsoleLog ''Prepared default plugins.'']
              (events_of (prepareDefaultPlugins sys G E isInsidersBuild w)))
     \<and> (outcome_of (prepareDefaultPlugins (fs_extra pkgs) G E isInsidersBuild fs) = Returned () \<longrightarrow>
          world_of (prepareDefaultPlugins (fs_extra pkgs) G E isInsidersBuild fs)
            (path_join [defaultPluginsDir G, ''bundled.json'']) = Some (File (Json []))
          \<and> world_of (prepareDefaultPlugins (fs_extra pkgs) G E isInsidersBuild fs)
            (path_join [appDir G, ''src'', ''defaultPlugins'', ''index.tsx'']) =
              Some (File (Text (generatedIndex [])))
          \<and> world_of (prepareDefaultPlugins (fs_extra pkgs) G E isInsidersBuild fs)
            (path_join [browserUiDir G, ''src'', ''defaultPlugins'', ''index.tsx'']) =
              Some (File (Text (generatedIndex []))))"
proof -
  have files: "(outcome_of (prepareDefaultPlugins (fs_extra pkgs) G E isInsidersBuild fs) = Returned () \<longrightarrow>
          world_of (prepareDefaultPlugins (fs_extra pkgs) G E isInsidersBuild fs)
            (path_join [defaultPluginsDir G, ''bundled.json'']) = Some (File (Json []))
          \<and> world_of (prepareDefaultPlugins (fs_extra pkgs) G E isInsidersBuild fs)
            (path_join [appDir G, ''src'', ''defaultPlugins'', ''index.tsx'']) =
              Some (File (Text (generatedIndex [])))
          \<and> world_of (prepareDefaultPlugins (fs_extra pkgs) G E isInsidersBuild fs)
            (path_join [browserUiDir G, ''src'', ''defaultPlugins'', ''index.tsx'']) =
              Some (File (Text (generatedIndex []))))"
  proof
    assume r: "outcome_of (prepareDefaultPlugins (fs_extra pkgs) G E isInsidersBuild fs) = Returned ()"
    from prepare_ends_with_generate [OF _ r] assms(1) obtain fs' where
      g: "outcome_of (generateDefaultPluginEntryPoints (fs_extra pkgs) G [] fs') = Returned ()"
      and w: "world_of (prepareDefaultPlugins (fs_extra pkgs) G E isInsidersBuild fs) =
               world_of (generateDefaultPluginEntryPoints (fs_extra pkgs) G [] fs')"
      by blast
    from generate_persists [OF g] show "world_of (prepareDefaultPlugins (fs_extra pkgs) G E isInsidersBuild fs)
            (path_join [defaultPluginsDir G, ''bundled.json'']) = Some (File (Json []))
          \<and> world_of (prepareDefaultPlugins (fs_extra pkgs) G E isInsidersBuild fs)
            (path_join [appDir G, ''src'', ''defaultPlugins'', ''index.tsx'']) =
              Some (File (Text (generatedIndex [])))
          \<and> world_of (prepareDefaultPlugins (fs_extra pkgs) G E isInsidersBuild fs)
            (path_join [browserUiDir G, ''src'', ''defaultPlugins'', ''index.tsx'']) =
              Some (File (Text (generatedIndex [])))"
      unfolding w by simp
  qed

  have tail: "\<And>w'. set (manifests (events_of (seq (generateDefaultPluginEntryPoints sys G [])
          (console_log ''Prepared default plugins.'') w'))) \<subseteq>
       {(path_join [defaultPluginsDir G, ''bundled.json''], [])}
     \<and> set (loaders (events_of (seq (generateDefaultPluginEntryPoints sys G [])
          (console_log ''Prepared default plugins.'') w'))) \<subseteq>
       {(path_join [appDir G, ''src'', ''defaultPlugins'', ''index.tsx''], generatedIndex []),
        (path_join [browserUiDir G, ''src'', ''defaultPlugins'', ''index.tsx''], generatedIndex [])}
     \<and> manifests (events_of (seq (generateDefaultPluginEntryPoints sys G [])
          (console_log ''Prepared default plugins.'') w')) =
            [(path_join [defaultPluginsDir G, ''bundled.json''], [])]
     \<and> (outcome_of (seq (generateDefaultPluginEntryPoints sys G [])
          (console_log ''Prepared default plugins.'') w') = Returned () \<longrightarrow>
         events_of (seq (generateDefaultPluginEntryPoints sys G [])
          (console_log ''Prepared default plugins.'') w') =
              [ConsoleLog ''Generating entry points for 0 bundled plugins...'',
               WriteJSON (path_join [defaultPluginsDir G, ''bundled.json'']) [],
               EnsureDir (path_join [appDir G, ''src'', ''defaultPlugins'']),
               WriteFile (path_join [appDir G, ''src'', ''defaultPlugins'', ''index.tsx'']) (generatedIndex []),
               EnsureDir (path_join [browserUiDir G, ''src'', ''defaultPlugins'']),
               WriteFile (path_join [browserUiDir G, ''src'', ''defaultPlugins'', ''index.tsx'']) (generatedIndex []),
               ConsoleLog ''Generated bundled plugin entry points.'',
               ConsoleLog ''Prepared default plugins.''])"
    using generate_then_log [where sys=sys and G=G and L="[]" and msg="''Prepared default plugins.''",
      unfolded generate_calls_Nil]
    by simp
  have calls: "set (manifests (events_of (prepareDefaultPlugins sys G E isInsidersBuild w))) \<subseteq>
       {(path_join [defaultPluginsDir G, ''bundled.json''], [])}
     \<and> set (loaders (events_of (prepareDefaultPlugins sys G E isInsidersBuild w))) \<subseteq>
       {(path_join [appDir G, ''src'', ''defaultPlugins'', ''index.tsx''], generatedIndex []),
        (path_join [browserUiDir G, ''src'', ''defaultPlugins'', ''index.tsx''], generatedIndex [])}
     \<and> (outcome_of (prepareDefaultPlugins sys G E isInsidersBuild w) = Returned () \<longrightarrow>
          manifests (events_of (prepareDefaultPlugins sys G E isInsidersBuild w)) =
            [(path_join [defaultPluginsDir G, ''bundled.json''], [])]
          \<and> suffix
              [ConsoleLog ''Generating entry points for 0 bundled plugins...'',
               WriteJSON (path_join [defaultPluginsDir G, ''bundled.json'']) [],
               EnsureDir (path_join [appDir G, ''src'', ''defaultPlugins'']),
               WriteFile (path_join [appDir G, ''src'', ''defaultPlugins'', ''index.tsx'']) (generatedIndex []),
               EnsureDir (path_join [browserUiDir G, ''src'', ''defaultPlugins'']),
               WriteFile (path_join [browserUiDir G, ''src'', ''defaultPlugins'', ''index.tsx'']) (generatedIndex []),
               ConsoleLog ''Generated bundled plugin entry points.'',
               ConsoleLog ''Prepared default plugins.'']
              (events_of (prepareDefaultPlugins sys G E isInsidersBuild w)))"
    unfolding prepareDefaultPlugins_def
    using assms tail
    by (simp add: seq_await seq_assoc await_if getSourcePlugins_def fs_emptyDir_def seq_call await_call
          seq_buildDefaultPlugins build_observed suffix_append suffix_Cons split: sum.splits)
  from calls files show ?thesis by blast
qed

text \<open>
  On the small installation three plugins are selected, two are built and linked into
  the default-plugins directory, and the manifest written is still empty.
\<close>

theorem prepareDefaultPlugins_no_bundled_plugins_witness:
  "truthy (FLIPPER_NO_BUNDLED_PLUGINS (demo_E\<lparr>FLIPPER_NO_BUNDLED_PLUGINS := Some ''1''\<rparr>))
   \<and> \<not> truthy (FLIPPER_DEFAULT_PLUGINS_DIR (demo_E\<lparr>FLIPPER_NO_BUNDLED_PLUGINS := Some ''1''\<rparr>))
   \<and> outcome_of (prepareDefaultPlugins demo_sys demo_G
         (demo_E\<lparr>FLIPPER_NO_BUNDLED_PLUGINS := Some ''1''\<rparr>) False demo_fs) = Returned ()
   \<and> map id' (defaultPlugins_of False demo_plugins) = [''Network'', ''Sandbox'', ''Inspector'']
   \<and> linked (events_of (prepareDefaultPlugins demo_sys demo_G
         (demo_E\<lparr>FLIPPER_NO_BUNDLED_PLUGINS := Some ''1''\<rparr>) False demo_fs)) =
       [(''/p/net'', ''/r/static/defaultPlugins/net''), (''/p/layout'', ''/r/static/defaultPlugins/layout'')]
   \<and> manifests (events_of (prepareDefaultPlugins demo_sys demo_G
         (demo_E\<lparr>FLIPPER_NO_BUNDLED_PLUGINS := Some ''1''\<rparr>) False demo_fs)) =
       [(path_join [defaultPluginsDir demo_G, ''bundled.json''], [])]
   \<and> world_of (prepareDefaultPlugins demo_sys demo_G
         (demo_E\<lparr>FLIPPER_NO_BUNDLED_PLUGINS := Some ''1''\<rparr>) False demo_fs)
       ''/r/static/defaultPlugins/net'' = Some (Link ''/p/net'')
   \<and> world_of (prepareDefaultPlugins demo_sys demo_G
         (demo_E\<lparr>FLIPPER_NO_BUNDLED_PLUGINS := Some ''1''\<rparr>) False demo_fs)
       ''/r/static/defaultPlugins/bundled.json'' = Some (File (Json []))"
proof -
  let ?E = "demo_E\<lparr>FLIPPER_NO_BUNDLED_PLUGINS := Some ''1''\<rparr>"
  have h1: "truthy (FLIPPER_NO_BUNDLED_PLUGINS ?E)" by code_simp
  have h2: "\<not> truthy (FLIPPER_DEFAULT_PLUGINS_DIR ?E)" by code_simp
  have r: "outcome_of (prepareDefaultPlugins demo_sys demo_G ?E False demo_fs) = Returned ()"
    by code_simp
  have s: "map id' (defaultPlugins_of False demo_plugins) = [''Network'', ''Sandbox'', ''Inspector'']"
    by code_simp
  have l: "linked (events_of (prepareDefaultPlugins demo_sys demo_G ?E False demo_fs)) =
       [(''/p/net'', ''/r/static/defaultPlugins/net''), (''/p/layout'', ''/r/static/defaultPlugins/layout'')]"
    by code_simp
  from prepareDefaultPlugins_no_bundled_plugins
    [OF h1 h2, where sys=demo_sys and G=demo_G and isInsidersBuild=False and w=demo_fs] r
  have m: "manifests (events_of (prepareDefaultPlugins demo_sys demo_G ?E False demo_fs)) =
       [(path_join [defaultPluginsDir demo_G, ''bundled.json''], [])]"
    by blast
  have c: "world_of (prepareDefaultPlugins demo_sys demo_G ?E False demo_fs)
       ''/r/static/defaultPlugins/net'' = Some (Link ''/p/net'')"
    by code_simp
  have d: "world_of (prepareDefaultPlugins demo_sys demo_G ?E False demo_fs)
       ''/r/static/defaultPlugins/bundled.json'' = Some (File (Json []))"
    by code_simp
  from h1 h2 r s l m c d show ?thesis by blast
qed

section \<open>Compiling the three bundles\<close>

lemma tryCatch_console_log [simp]:
  "tryCatch (console_log msg) h w = (Returned (), w, [ConsoleLog msg])"
  by (simp add: tryCatch_run)

lemma seq_set_env [simp]: "seq (set_env n v) k w = emit [SetEnv n v] (k w)"
  by (simp add: seq_run set_env_def)

lemmas compile_simps = Let_def seq_assoc seq_if seq_return_fun tryCatch_if
  getAppWatchFolders_def getPluginSourceFolders_def getWatchFolders_def require_electron_version_def
  Metro_loadConfig_def Metro_runBuild_def stripSourceMapComment_def fs_promises_mkdir_def
  seq_call await_call run_call tryCatch_seq_call tryCatch_await_call tryCatch_call



text \<open>
  Claim C6. When \<^verbatim>\<open>Metro.runBuild\<close> throws \<open>e\<close> in \<^verbatim>\<open>compileRenderer\<close> or in
  \<^verbatim>\<open>compileMain\<close>, the function logs \<^verbatim>\<open>Script termnated.\<close> with \<open>e\<close> and exits the process
  with code 1; nothing is thrown to the caller. An error reaches the caller of
  \<^verbatim>\<open>compileRenderer\<close> only from the two look-ups of watch folders before the \<^verbatim>\<open>try\<close>, when
  Metro has not been called, and the caller of \<^verbatim>\<open>compileMain\<close> only from reading the
  version of Electron. When \<^verbatim>\<open>Metro.runBuild\<close> throws \<open>e\<close> in \<^verbatim>\<open>compileServerMain\<close>,
  the function throws \<open>e\<close>, and no run of it exits the process or logs an error.
\<close>

theorem compile_failure_policy:
  "(sys_getAppWatchFolders sys w = (Inr a, w1)
      \<and> sys_getPluginSourceFolders sys w1 = (Inr p, w2)
      \<and> sys_MetroRunBuild sys (compile_config G (appDir G) (a @ p))
            (compile_options E (path_join [appDir G, ''src'', ''init.tsx''])
               (path_join [buildFolder, ''bundle.js''])) w2 = (Inl e, w3)
    \<longrightarrow> compileRenderer sys G E buildFolder w =
          (Exited 1, w3,
           [ConsoleLog ''Compiling renderer bundle...'', GetAppWatchFolders, GetPluginSourceFolders,
            MetroRunBuild (compile_config G (appDir G) (a @ p))
              (compile_options E (path_join [appDir G, ''src'', ''init.tsx''])
                 (path_join [buildFolder, ''bundle.js''])),
            ConsoleError ''Script termnated.'' e, ProcessExit 1]))
   \<and> (\<forall>err. outcome_of (compileRenderer sys G E buildFolder w) = Threw err \<longrightarrow>
          bundling (events_of (compileRenderer sys G E buildFolder w)) = [])
   \<and> (sys_electronVersion sys w = (Inr v, m1)
      \<and> sys_MetroLoadConfig sys m1 = (Inr lc, m2)
      \<and> sys_getWatchFolders sys (staticDir G) m2 = (Inr ws, m3)
      \<and> sys_MetroRunBuild sys (compileMain_config G lc ws) (compileMain_options G E) m3 = (Inl e, m4)
    \<longrightarrow> compileMain sys G E w =
          (Exited 1, m4,
           [RequireElectronVersion, SetEnv ''FLIPPER_ELECTRON_VERSION'' v,
            ConsoleLog ''Compiling main bundle...'', MetroLoadConfig, GetWatchFolders (staticDir G),
            MetroRunBuild (compileMain_config G lc ws) (compileMain_options G E),
            ConsoleError ''Script termnated.'' e, ProcessExit 1]))
   \<and> (\<forall>err. outcome_of (compileMain sys G E w) = Threw err \<longrightarrow>
          events_of (compileMain sys G E w) = [RequireElectronVersion])
   \<and> (sys_mkdir sys (path_join [serverDir G, ''dist'']) w = (Inr (), s1)
      \<and> sys_MetroLoadConfig sys s1 = (Inr lc', s2)
      \<and> sys_MetroRunBuild sys (compileServerMain_config G lc') (compileServerMain_options G E) s2
           = (Inl e, s3)
    \<longrightarrow> compileServerMain sys G E w =
          (Threw e, s3,
           [Mkdir (path_join [serverDir G, ''dist'']), ConsoleLog ''Compiling server bundle...'',
            MetroLoadConfig,
            MetroRunBuild (compileServerMain_config G lc') (compileServerMain_options G E)]))
   \<and> (\<forall>n. outcome_of (compileServerMain sys G E w) \<noteq> Exited n)
   \<and> (\<forall>ev \<in> set (events_of (compileServerMain sys G E w)).
         (\<forall>n. ev \<noteq> ProcessExit n) \<and> (\<forall>m err. ev \<noteq> ConsoleError m err))"
proof (intro conjI)
  show "sys_getAppWatchFolders sys w = (Inr a, w1)
      \<and> sys_getPluginSourceFolders sys w1 = (Inr p, w2)
      \<and> sys_MetroRunBuild sys (compile_config G (appDir G) (a @ p))
            (compile_options E (path_join [appDir G, ''src'', ''init.tsx''])
               (path_join [buildFolder, ''bundle.js''])) w2 = (Inl e, w3)
    \<longrightarrow> compileRenderer sys G E buildFolder w =
          (Exited 1, w3,
           [ConsoleLog ''Compiling renderer bundle...'', GetAppWatchFolders, GetPluginSourceFolders,
            MetroRunBuild (compile_config G (appDir G) (a @ p))
              (compile_options E (path_join [appDir G, ''src'', ''init.tsx''])
                 (path_join [buildFolder, ''bundle.js''])),
            ConsoleError ''Script termnated.'' e, ProcessExit 1])"
    unfolding compileRenderer_def compile_def
    by (simp add: compile_simps)
  show "\<forall>err. outcome_of (compileRenderer sys G E buildFolder w) = Threw err \<longrightarrow>
          bundling (events_of (compileRenderer sys G E buildFolder w)) = []"
    unfolding compileRenderer_def compile_def
    by (simp add: compile_simps split: sum.splits)
  show "sys_electronVersion sys w = (Inr v, m1)
      \<and> sys_MetroLoadConfig sys m1 = (Inr lc, m2)
      \<and> sys_getWatchFolders sys (staticDir G) m2 = (Inr ws, m3)
      \<and> sys_MetroRunBuild sys (compileMain_config G lc ws) (compileMain_options G E) m3 = (Inl e, m4)
    \<longrightarrow> compileMain sys G E w =
          (Exited 1, m4,
           [RequireElectronVersion, SetEnv ''FLIPPER_ELECTRON_VERSION'' v,
            ConsoleLog ''Compiling main bundle...'', MetroLoadConfig, GetWatchFolders (staticDir G),
            MetroRunBuild (compileMain_config G lc ws) (compileMain_options G E),
            ConsoleError ''Script termnated.'' e, ProcessExit 1])"
    unfolding compileMain_def
    by (simp add: compile_simps)
  show "\<forall>err. outcome_of (compileMain sys G E w) = Threw err \<longrightarrow>
          events_of (compileMain sys G E w) = [RequireElectronVersion]"
    unfolding compileMain_def
    by (simp add: compile_simps split: sum.splits)
  show "sys_mkdir sys (path_join [serverDir G, ''dist'']) w = (Inr (), s1)
      \<and> sys_MetroLoadConfig sys s1 = (Inr lc', s2)
      \<and> sys_MetroRunBuild sys (compileServerMain_config G lc') (compileServerMain_options G E) s2
           = (Inl e, s3)
    \<longrightarrow> compileServerMain sys G E w =
          (Threw e, s3,
           [Mkdir (path_join [serverDir G, ''dist'']), ConsoleLog ''Compiling server bundle...'',
            MetroLoadConfig,
            MetroRunBuild (compileServerMain_config G lc') (compileServerMain_options G E)])"
    unfolding compileServerMain_def
    by (simp add: compile_simps)
  show "\<forall>n. outcome_of (compileServerMain sys G E w) \<noteq> Exited n"
    unfolding compileServerMain_def
    by (simp add: compile_simps split: sum.splits)
  show "\<forall>ev \<in> set (events_of (compileServerMain sys G E w)).
         (\<forall>n. ev \<noteq> ProcessExit n) \<and> (\<forall>m err. ev \<noteq> ConsoleError m err)"
    unfolding compileServerMain_def
    by (simp add: compile_simps split: sum.splits)
qed

text \<open>
  On an empty file system Metro finds no entry module: the renderer and the main
  compilation exit, the server compilation throws Metro's error.
\<close>

theorem compile_failure_policy_witness:
  "sys_getAppWatchFolders demo_sys Map.empty = (Inr [''/r/app''], Map.empty)
   \<and> sys_getPluginSourceFolders demo_sys Map.empty = (Inr [''/p''], Map.empty)
   \<and> outcome_of (compileRenderer demo_sys demo_G demo_E ''/tmp/b'' Map.empty) = Exited 1
   \<and> outcome_of (compileMain demo_sys demo_G demo_E Map.empty) = Exited 1
   \<and> failures (events_of (compileMain demo_sys demo_G demo_E Map.empty)) =
        [(''Script termnated.'', Error ''entry not found'')]
   \<and> outcome_of (compileServerMain demo_sys demo_G demo_E Map.empty) = Threw (Error ''entry not found'')
   \<and> failures (events_of (compileServerMain demo_sys demo_G demo_E Map.empty)) = []"
proof -
  note t = compile_failure_policy [where sys=demo_sys and G=demo_G and E=demo_E and w=Map.empty
      and buildFolder="''/tmp/b''" and e="Error ''entry not found''"]
  have a1: "sys_getAppWatchFolders demo_sys Map.empty = (Inr [''/r/app''], Map.empty)"
    by (simp add: demo_sys_def)
  have a2: "sys_getPluginSourceFolders demo_sys Map.empty = (Inr [''/p''], Map.empty)"
    by (simp add: demo_sys_def)
  have a3: "sys_MetroRunBuild demo_sys (compile_config demo_G (appDir demo_G) ([''/r/app''] @ [''/p'']))
            (compile_options demo_E (path_join [appDir demo_G, ''src'', ''init.tsx''])
               (path_join [''/tmp/b'', ''bundle.js''])) Map.empty
          = (Inl (Error ''entry not found''), Map.empty)"
    by (simp add: demo_sys_def)
  from t a1 a2 a3
  have r: "compileRenderer demo_sys demo_G demo_E ''/tmp/b'' Map.empty =
          (Exited 1, Map.empty,
           [ConsoleLog ''Compiling renderer bundle...'', GetAppWatchFolders, GetPluginSourceFolders,
            MetroRunBuild (compile_config demo_G (appDir demo_G) ([''/r/app''] @ [''/p'']))
              (compile_options demo_E (path_join [appDir demo_G, ''src'', ''init.tsx''])
                 (path_join [''/tmp/b'', ''bundle.js''])),
            ConsoleError ''Script termnated.'' (Error ''entry not found''), ProcessExit 1])"
    by blast
  have b1: "sys_electronVersion demo_sys Map.empty = (Inr ''18.2.0'', Map.empty)"
    by (simp add: demo_sys_def)
  have b2: "sys_MetroLoadConfig demo_sys Map.empty = (Inr [], Map.empty)"
    by (simp add: demo_sys_def)
  have b3: "sys_getWatchFolders demo_sys (staticDir demo_G) Map.empty = (Inr [staticDir demo_G], Map.empty)"
    by (simp add: demo_sys_def)
  have b4: "sys_MetroRunBuild demo_sys (compileMain_config demo_G [] [staticDir demo_G])
       (compileMain_options demo_G demo_E) Map.empty = (Inl (Error ''entry not found''), Map.empty)"
    by (simp add: demo_sys_def)
  from t b1 b2 b3 b4
  have m: "compileMain demo_sys demo_G demo_E Map.empty =
          (Exited 1, Map.empty,
           [RequireElectronVersion, SetEnv ''FLIPPER_ELECTRON_VERSION'' ''18.2.0'',
            ConsoleLog ''Compiling main bundle...'', MetroLoadConfig, GetWatchFolders (staticDir demo_G),
            MetroRunBuild (compileMain_config demo_G [] [staticDir demo_G]) (compileMain_options demo_G demo_E),
            ConsoleError ''Script termnated.'' (Error ''entry not found''), ProcessExit 1])"
    by blast
  let ?s1 = "snd (sys_mkdir demo_sys (path_join [serverDir demo_G, ''dist'']) Map.empty)"
  have "fst (sys_mkdir demo_sys (path_join [serverDir demo_G, ''dist'']) Map.empty) = Inr ()"
    by code_simp
  then have c1: "sys_mkdir demo_sys (path_join [serverDir demo_G, ''dist'']) Map.empty = (Inr (), ?s1)"
    by (metis prod.collapse)
  have c2: "sys_MetroLoadConfig demo_sys ?s1 = (Inr [], ?s1)"
    by (simp add: demo_sys_def)
  have "?s1 (entry_o (compileServerMain_options demo_G demo_E)) = None"
    by code_simp
  then have c3: "sys_MetroRunBuild demo_sys (compileServerMain_config demo_G [])
       (compileServerMain_options demo_G demo_E) ?s1 = (Inl (Error ''entry not found''), ?s1)"
    by (simp add: demo_sys_def)
  from t c1 c2 c3
  have s: "compileServerMain demo_sys demo_G demo_E Map.empty =
          (Threw (Error ''entry not found''), ?s1,
           [Mkdir (path_join [serverDir demo_G, ''dist'']), ConsoleLog ''Compiling server bundle...'',
            MetroLoadConfig,
            MetroRunBuild (compileServerMain_config demo_G []) (compileServerMain_options demo_G demo_E)])"
    by blast
  show ?thesis
    unfolding r m s using a1 a2 by simp
qed

section \<open>Moving the source maps\<close>

lemma path_join_2:
  "n \<noteq> [] \<Longrightarrow> path_join [d, n] = (if d = [] then n else d @ ''/'' @ n)"
  by (simp add: path_join_def)

lemma dirname_bundle_map: "F \<noteq> [] \<Longrightarrow> dirname (F @ ''/bundle.map'') = F"
  by (simp add: dirname_def)

lemma dirname_main_bundle_map: "F \<noteq> [] \<Longrightarrow> dirname (F @ ''/main.bundle.map'') = F"
  by (simp add: dirname_def)

lemma slash_neq_dot: "x @ ''/bundle.map'' \<noteq> y @ ''.bundle.map''"
proof
  assume "x @ ''/bundle.map'' = y @ ''.bundle.map''"
  then have "rev (x @ ''/bundle.map'') ! 10 = rev (y @ ''.bundle.map'') ! 10" by simp
  then show False by simp
qed

lemma src_dst_distinct:
  assumes "F \<noteq> []"
  shows "path_join [B, ''bundle.map''] \<noteq> path_join [F, ''main.bundle.map'']"
    and "path_join [S, ''main.bundle.map''] \<noteq> path_join [F, ''bundle.map'']"
    and "path_join [B, ''bundle.map''] \<noteq> path_join [S, ''main.bundle.map'']"
    and "path_join [F, ''bundle.map''] \<noteq> path_join [F, ''main.bundle.map'']"
    and "\<not> under (path_join [F, ''main.bundle.map'']) (path_join [F, ''bundle.map''])"
proof -
  have a: "\<And>x y. x @ ''/bundle.map'' \<noteq> y @ ''/main.bundle.map''"
    using slash_neq_dot [of _ "_ @ ''/main''"] by simp
  have b: "\<And>x. x @ ''/bundle.map'' \<noteq> ''main.bundle.map''"
    using slash_neq_dot [of _ "''main''"] by simp
  have c: "\<And>y. ''bundle.map'' \<noteq> y @ ''/main.bundle.map''"
  proof
    fix y :: string assume "''bundle.map'' = y @ ''/main.bundle.map''"
    then have "length ''bundle.map'' = length (y @ ''/main.bundle.map'')" by simp
    then show False by simp
  qed
  show "path_join [B, ''bundle.map''] \<noteq> path_join [F, ''main.bundle.map'']"
    using assms a c by (simp add: path_join_2)
  show "path_join [S, ''main.bundle.map''] \<noteq> path_join [F, ''bundle.map'']"
    using assms a [of F S] b [of F] by (auto simp: path_join_2)
  show "path_join [B, ''bundle.map''] \<noteq> path_join [S, ''main.bundle.map'']"
    using a [of B S] b [of B] c [of S] by (auto simp: path_join_2)
  show "path_join [F, ''bundle.map''] \<noteq> path_join [F, ''main.bundle.map'']"
    using assms by (simp add: path_join_2)
  show "\<not> under (path_join [F, ''main.bundle.map'']) (path_join [F, ''bundle.map''])"
    using assms by (simp add: path_join_2 under_def)
qed

lemma move_fs_Returned:
  assumes "fst (move_fs src dst fs) = Inr ()" and "fs src = Some n" and "n \<noteq> Directory"
  shows "src \<noteq> dst"
    and "\<exists>fsm. mkdirp fs (dirname dst) = Inr fsm
           \<and> snd (move_fs src dst fs) =
               (\<lambda>q. if q = dst then Some n else if q = src then None else rm_rf fsm dst q)"
proof -
  from assms(1,2) show ne: "src \<noteq> dst"
    by (auto simp: move_fs_def split: if_splits)
  from assms ne obtain fsm where m: "mkdirp fs (dirname dst) = Inr fsm"
    and alive: "rm_rf fsm dst src \<noteq> None"
    and w: "snd (move_fs src dst fs) = rename (rm_rf fsm dst) src dst"
    by (auto simp: move_fs_def Let_def split: if_splits sum.splits)
  from alive have "rm_rf fsm dst src = fsm src"
    by (auto simp: rm_rf_def split: if_splits)
  also have "fsm src = Some n"
    using mkdirp_keeps [OF m, of src] assms(2) by simp
  finally have s: "rm_rf fsm dst src = Some n" .
  have "rename (rm_rf fsm dst) src dst =
      (\<lambda>q. if q = dst then Some n else if q = src then None else rm_rf fsm dst q)"
    using s assms(3) by (cases n) (auto simp: rename_def)
  with m w show "\<exists>fsm. mkdirp fs (dirname dst) = Inr fsm
           \<and> snd (move_fs src dst fs) =
               (\<lambda>q. if q = dst then Some n else if q = src then None else rm_rf fsm dst q)"
    by simp
qed

lemma moveSourceMaps_moved:
  assumes t: "truthy sourceMapFolder"
    and r: "outcome_of (moveSourceMaps (fs_extra pkgs) G buildFolder sourceMapFolder fs) = Returned ()"
  shows "\<exists>fs1.
      mkdirp fs (the sourceMapFolder) = Inr fs1
      \<and> fst (move_fs (path_join [buildFolder, ''bundle.map''])
               (path_join [the sourceMapFolder, ''bundle.map'']) fs1) = Inr ()
      \<and> fst (move_fs (path_join [staticDir G, ''main.bundle.map''])
               (path_join [the sourceMapFolder, ''main.bundle.map''])
               (snd (move_fs (path_join [buildFolder, ''bundle.map''])
                  (path_join [the sourceMapFolder, ''bundle.map'']) fs1))) = Inr ()
      \<and> world_of (moveSourceMaps (fs_extra pkgs) G buildFolder sourceMapFolder fs) =
          snd (move_fs (path_join [staticDir G, ''main.bundle.map''])
               (path_join [the sourceMapFolder, ''main.bundle.map''])
               (snd (move_fs (path_join [buildFolder, ''bundle.map''])
                  (path_join [the sourceMapFolder, ''bundle.map'']) fs1)))"
  using r unfolding moveSourceMaps_def
  by (auto simp: t Let_def fs_ensureDir_def fs_move_def seq_call ensureDir_fs_def
        split: sum.splits)

lemma moveSourceMaps_removed:
  assumes "\<not> truthy sourceMapFolder"
  shows "moveSourceMaps (fs_extra pkgs) G buildFolder sourceMapFolder fs =
     (Returned (),
      rm_rf (rm_rf fs (path_join [buildFolder, ''bundle.map''])) (path_join [staticDir G, ''main.bundle.map'']),
      [ConsoleLog ''Moving source maps...'', Remove (path_join [buildFolder, ''bundle.map'']),
       Remove (path_join [staticDir G, ''main.bundle.map'']), ConsoleLog ''Removing source maps.''])"
  unfolding moveSourceMaps_def
  by (simp add: assms Let_def fs_remove_def seq_call run_call remove_fs_def)

lemma rm_rf_simp: "rm_rf fs p q = (if q = p \<or> under p q then None else fs q)"
  by (simp add: rm_rf_def)

lemma truthy_the: "truthy v \<Longrightarrow> the v \<noteq> []"
  by (auto simp: truthy_def split: option.splits)

text \<open>
  Claim C4, on the file system of \<^verbatim>\<open>fs-extra\<close>. Given a destination (a non-empty
  string), when the renderer's \<^verbatim>\<open>bundle.map\<close> in the build folder and the main
  target's \<^verbatim>\<open>main.bundle.map\<close> in the static directory are there and are not directories,
  and \<^verbatim>\<open>moveSourceMaps\<close> returns, then neither is at its original path any more and
  both are under the destination, each with what it held. Given no destination,
  \<^verbatim>\<open>moveSourceMaps\<close> always returns, and neither path exists afterwards.
\<close>

theorem moveSourceMaps_moves_or_removes:
  "(truthy sourceMapFolder
      \<and> fs (path_join [buildFolder, ''bundle.map'']) = Some n1 \<and> n1 \<noteq> Directory
      \<and> fs (path_join [staticDir G, ''main.bundle.map'']) = Some n2 \<and> n2 \<noteq> Directory
      \<and> outcome_of (moveSourceMaps (fs_extra pkgs) G buildFolder sourceMapFolder fs) = Returned ()
    \<longrightarrow> world_of (moveSourceMaps (fs_extra pkgs) G buildFolder sourceMapFolder fs)
            (path_join [buildFolder, ''bundle.map'']) = None
        \<and> world_of (moveSourceMaps (fs_extra pkgs) G buildFolder sourceMapFolder fs)
            (path_join [staticDir G, ''main.bundle.map'']) = None
        \<and> world_of (moveSourceMaps (fs_extra pkgs) G buildFolder sourceMapFolder fs)
            (path_join [the sourceMapFolder, ''bundle.map'']) = Some n1
        \<and> world_of (moveSourceMaps (fs_extra pkgs) G buildFolder sourceMapFolder fs)
            (path_join [the sourceMapFolder, ''main.bundle.map'']) = Some n2)
   \<and> (\<not> truthy sourceMapFolder
    \<longrightarrow> outcome_of (moveSourceMaps (fs_extra pkgs) G buildFolder sourceMapFolder fs) = Returned ()
        \<and> world_of (moveSourceMaps (fs_extra pkgs) G buildFolder sourceMapFolder fs)
            (path_join [buildFolder, ''bundle.map'']) = None
        \<and> world_of (moveSourceMaps (fs_extra pkgs) G buildFolder sourceMapFolder fs)
            (path_join [staticDir G, ''main.bundle.map'']) = None)"
proof (rule conjI; rule impI)
  assume "\<not> truthy sourceMapFolder"
  then show "outcome_of (moveSourceMaps (fs_extra pkgs) G buildFolder sourceMapFolder fs) = Returned ()
        \<and> world_of (moveSourceMaps (fs_extra pkgs) G buildFolder sourceMapFolder fs)
            (path_join [buildFolder, ''bundle.map'']) = None
        \<and> world_of (moveSourceMaps (fs_extra pkgs) G buildFolder sourceMapFolder fs)
            (path_join [staticDir G, ''main.bundle.map'']) = None"
    by (simp add: moveSourceMaps_removed rm_rf_simp)
next
  let ?F = "the sourceMapFolder"
  let ?src1 = "path_join [buildFolder, ''bundle.map'']"
  let ?dst1 = "path_join [?F, ''bundle.map'']"
  let ?src2 = "path_join [staticDir G, ''main.bundle.map'']"
  let ?dst2 = "path_join [?F, ''main.bundle.map'']"
  let ?run = "moveSourceMaps (fs_extra pkgs) G buildFolder sourceMapFolder fs"
  assume a: "truthy sourceMapFolder
      \<and> fs ?src1 = Some n1 \<and> n1 \<noteq> Directory
      \<and> fs ?src2 = Some n2 \<and> n2 \<noteq> Directory
      \<and> outcome_of ?run = Returned ()"
  then have F: "?F \<noteq> []" by (simp add: truthy_the)
  note d = src_dst_distinct [OF F]
  have dn1: "dirname ?dst1 = ?F" and dn2: "dirname ?dst2 = ?F"
    using F by (simp_all add: path_join_2 dirname_bundle_map dirname_main_bundle_map)
  from a obtain fs1 where
    m0: "mkdirp fs ?F = Inr fs1"
    and mv1: "fst (move_fs ?src1 ?dst1 fs1) = Inr ()"
    and mv2: "fst (move_fs ?src2 ?dst2 (snd (move_fs ?src1 ?dst1 fs1))) = Inr ()"
    and w: "world_of ?run = snd (move_fs ?src2 ?dst2 (snd (move_fs ?src1 ?dst1 fs1)))"
    using moveSourceMaps_moved [of sourceMapFolder pkgs G buildFolder fs] by blast
  have s1: "fs1 ?src1 = Some n1" and s2: "fs1 ?src2 = Some n2"
    using mkdirp_keeps [OF m0] a by simp_all
  have off: "?src1 \<notin> set (chain ?F)"
    using mkdirp_chain [OF m0, of ?src1] s1 a by auto
  from move_fs_Returned [OF mv1 s1] a obtain fsm1 where
    m1: "mkdirp fs1 ?F = Inr fsm1"
    and fs2: "snd (move_fs ?src1 ?dst1 fs1) =
        (\<lambda>q. if q = ?dst1 then Some n1 else if q = ?src1 then None else rm_rf fsm1 ?dst1 q)"
    unfolding dn1 by blast
  let ?fs2 = "snd (move_fs ?src1 ?dst1 fs1)"
  have alive: "?fs2 ?src2 \<noteq> None"
    using mv2 by (auto simp: move_fs_def split: if_splits)
  have "?fs2 ?src2 = fsm1 ?src2"
    using alive d(2) by (simp add: fs2 rm_rf_simp split: if_splits)
  also have "fsm1 ?src2 = Some n2"
    using mkdirp_keeps [OF m1, of ?src2] s2 by simp
  finally have s2': "?fs2 ?src2 = Some n2" .
  from move_fs_Returned [OF mv2 s2'] a obtain fsm2 where
    ne2: "?src2 \<noteq> ?dst2"
    and m2: "mkdirp ?fs2 ?F = Inr fsm2"
    and fs3: "snd (move_fs ?src2 ?dst2 ?fs2) =
        (\<lambda>q. if q = ?dst2 then Some n2 else if q = ?src2 then None else rm_rf fsm2 ?dst2 q)"
    unfolding dn2 by blast
  have gone: "?fs2 ?src1 = None"
    using d(1) move_fs_Returned(1) [OF mv1 s1] a by (simp add: fs2)
  have "fsm2 ?src1 = ?fs2 ?src1"
    by (rule mkdirp_elsewhere [OF m2 off])
  with gone have g1: "fsm2 ?src1 = None" by simp
  have "?fs2 ?dst1 = Some n1" by (simp add: fs2)
  then have k1: "fsm2 ?dst1 = Some n1"
    using mkdirp_keeps [OF m2, of ?dst1] by simp
  have r1: "world_of ?run ?src1 = None"
    unfolding w fs3 using d(1) g1 by (simp add: rm_rf_simp)
  have r2: "world_of ?run ?src2 = None"
    unfolding w fs3 using ne2 by simp
  have r3: "world_of ?run ?dst1 = Some n1"
    unfolding w fs3 using d(2) [of "staticDir G", symmetric] d(4) d(5) k1 by (simp add: rm_rf_simp)
  have r4: "world_of ?run ?dst2 = Some n2"
    unfolding w fs3 by simp
  from r1 r2 r3 r4 show "world_of ?run ?src1 = None \<and> world_of ?run ?src2 = None
      \<and> world_of ?run ?dst1 = Some n1 \<and> world_of ?run ?dst2 = Some n2"
    by blast
qed

text \<open>
  Both branches on the small installation: the two maps end up in \<^verbatim>\<open>/maps\<close>, or are
  gone.
\<close>

theorem moveSourceMaps_moves_or_removes_witness:
  "truthy (Some ''/maps'')
   \<and> demo_fs ''/tmp/b/bundle.map'' = Some (File (Text ''renderer map''))
   \<and> demo_fs ''/r/static/main.bundle.map'' = Some (File (Text ''main map''))
   \<and> outcome_of (moveSourceMaps (fs_extra demo_sys) demo_G ''/tmp/b'' (Some ''/maps'') demo_fs) = Returned ()
   \<and> world_of (moveSourceMaps (fs_extra demo_sys) demo_G ''/tmp/b'' (Some ''/maps'') demo_fs)
        ''/tmp/b/bundle.map'' = None
   \<and> world_of (moveSourceMaps (fs_extra demo_sys) demo_G ''/tmp/b'' (Some ''/maps'') demo_fs)
        ''/r/static/main.bundle.map'' = None
   \<and> world_of (moveSourceMaps (fs_extra demo_sys) demo_G ''/tmp/b'' (Some ''/maps'') demo_fs)
        ''/maps/bundle.map'' = Some (File (Text ''renderer map''))
   \<and> world_of (moveSourceMaps (fs_extra demo_sys) demo_G ''/tmp/b'' (Some ''/maps'') demo_fs)
        ''/maps/main.bundle.map'' = Some (File (Text ''main map''))
   \<and> \<not> truthy None
   \<and> outcome_of (moveSourceMaps (fs_extra demo_sys) demo_G ''/tmp/b'' None demo_fs) = Returned ()
   \<and> world_of (moveSourceMaps (fs_extra demo_sys) demo_G ''/tmp/b'' None demo_fs)
        ''/tmp/b/bundle.map'' = None
   \<and> world_of (moveSourceMaps (fs_extra demo_sys) demo_G ''/tmp/b'' None demo_fs)
        ''/r/static/main.bundle.map'' = None"
proof -
  have p: "path_join [''/tmp/b'', ''bundle.map''] = ''/tmp/b/bundle.map''"
    "path_join [staticDir demo_G, ''main.bundle.map''] = ''/r/static/main.bundle.map''"
    "path_join [the (Some ''/maps''), ''bundle.map''] = ''/maps/bundle.map''"
    "path_join [the (Some ''/maps''), ''main.bundle.map''] = ''/maps/main.bundle.map''"
    by (simp_all add: path_join_def demo_G_def)
  have h1: "truthy (Some ''/maps'')" by (simp add: truthy_def)
  have h2: "demo_fs ''/tmp/b/bundle.map'' = Some (File (Text ''renderer map''))" by code_simp
  have h3: "demo_fs ''/r/static/main.bundle.map'' = Some (File (Text ''main map''))" by code_simp
  have h4: "outcome_of (moveSourceMaps (fs_extra demo_sys) demo_G ''/tmp/b'' (Some ''/maps'') demo_fs)
      = Returned ()" by code_simp
  have h5: "\<not> truthy None" by (simp add: truthy_def)
  note t = moveSourceMaps_moves_or_removes
    [where pkgs=demo_sys and G=demo_G and buildFolder="''/tmp/b''" and fs=demo_fs, unfolded p]
  have a: "world_of (moveSourceMaps (fs_extra demo_sys) demo_G ''/tmp/b'' (Some ''/maps'') demo_fs)
        ''/tmp/b/bundle.map'' = None
   \<and> world_of (moveSourceMaps (fs_extra demo_sys) demo_G ''/tmp/b'' (Some ''/maps'') demo_fs)
        ''/r/static/main.bundle.map'' = None
   \<and> world_of (moveSourceMaps (fs_extra demo_sys) demo_G ''/tmp/b'' (Some ''/maps'') demo_fs)
        ''/maps/bundle.map'' = Some (File (Text ''renderer map''))
   \<and> world_of (moveSourceMaps (fs_extra demo_sys) demo_G ''/tmp/b'' (Some ''/maps'') demo_fs)
        ''/maps/main.bundle.map'' = Some (File (Text ''main map''))"
    using t [where sourceMapFolder="Some ''/maps''" and ?n1.0="File (Text ''renderer map'')"
        and ?n2.0="File (Text ''main map'')", unfolded p] h1 h2 h3 h4
    by simp
  have b: "outcome_of (moveSourceMaps (fs_extra demo_sys) demo_G ''/tmp/b'' None demo_fs) = Returned ()
   \<and> world_of (moveSourceMaps (fs_extra demo_sys) demo_G ''/tmp/b'' None demo_fs)
        ''/tmp/b/bundle.map'' = None
   \<and> world_of (moveSourceMaps (fs_extra demo_sys) demo_G ''/tmp/b'' None demo_fs)
        ''/r/static/main.bundle.map'' = None"
    using t [where sourceMapFolder=None] h5 by blast
  from h1 h2 h3 h4 a h5 b show ?thesis by blast
qed

end
